theory Spec2Isabelle
  imports Complex_Main
begin

section \<open>Strings and character classes\<close>

text \<open>
  The analysed text is a JavaScript string, a sequence of UTF-16 code units. The model
  is over \<^typ>\<open>string\<close>: the code units U+0000 to U+00FF. On this range the character
  classes of the regular expressions, \<^verbatim>\<open>trim\<close> and \<^verbatim>\<open>toLowerCase\<close> are the ones
  defined here. Code units from U+0100 on are outside the model.
\<close>

definition isWhiteSpace :: "char \<Rightarrow> bool" where
  \<comment> \<open>\<^verbatim>\<open>\s\<close>, and what \<^verbatim>\<open>trim\<close> strips: TAB, LF, VT, FF, CR, SP, NBSP\<close>
  "isWhiteSpace c = (c \<in> set [CHR 0x09, CHR 0x0A, CHR 0x0B, CHR 0x0C, CHR 0x0D, CHR 0x20, CHR 0xA0])"

definition isLineTerminator :: "char \<Rightarrow> bool" where
  "isLineTerminator c = (c = CHR 0x0A \<or> c = CHR 0x0D)"

definition dot :: "char \<Rightarrow> bool" where
  \<comment> \<open>\<^verbatim>\<open>.\<close> without the s flag\<close>
  "dot c = (\<not> isLineTerminator c)"

definition isLowerAZ :: "char \<Rightarrow> bool" where
  \<comment> \<open>\<^verbatim>\<open>[a-z]\<close>\<close>
  "isLowerAZ c = (97 \<le> (of_char c :: nat) \<and> (of_char c :: nat) \<le> 122)"

definition isWordChar :: "char \<Rightarrow> bool" where
  \<comment> \<open>\<^verbatim>\<open>\w\<close>, which decides \<^verbatim>\<open>\b\<close>: A-Z, a-z, 0-9 and _\<close>
  "isWordChar c = (let n = (of_char c :: nat) in
     (48 \<le> n \<and> n \<le> 57) \<or> (65 \<le> n \<and> n \<le> 90) \<or> n = 95 \<or> (97 \<le> n \<and> n \<le> 122))"

definition toLowerChar :: "char \<Rightarrow> char" where
  \<comment> \<open>A-Z, and the Latin-1 capitals U+00C0 to U+00DE but the sign U+00D7, move up by 32\<close>
  "toLowerChar c = (let n = (of_char c :: nat) in
     if (65 \<le> n \<and> n \<le> 90) \<or> (192 \<le> n \<and> n \<le> 222 \<and> n \<noteq> 215)
     then char_of (n + 32) else c)"

definition toLowerCase :: "string \<Rightarrow> string" where
  "toLowerCase s = map toLowerChar s"

definition trim :: "string \<Rightarrow> string" where
  "trim s = rev (dropWhile isWhiteSpace (rev (dropWhile isWhiteSpace s)))"

definition startsWith :: "string \<Rightarrow> string \<Rightarrow> bool" where
  \<comment> \<open>\<^verbatim>\<open>s.startsWith(p)\<close>\<close>
  "startsWith s p = (take (length p) s = p)"

fun includesStr :: "string \<Rightarrow> string \<Rightarrow> bool" where
  \<comment> \<open>\<^verbatim>\<open>s.includes(p)\<close>\<close>
  "includesStr [] p = (p = [])"
| "includesStr (c # cs) p = (if startsWith (c # cs) p then True else includesStr cs p)"

section \<open>The regular expressions of the program\<close>

text \<open>
  Every regular expression of the two files is a sequence of character classes, each
  with a greedy quantifier, and of the assertions \<^verbatim>\<open>^\<close>, \<^verbatim>\<open>$\<close> and \<^verbatim>\<open>\b\<close>; a group
  always encloses one quantified class. \<open>Cls c lo hi cap\<close> is the class \<open>c\<close> repeated
  \<open>lo\<close> to \<open>hi\<close> times (\<open>None\<close>: unbounded), captured when \<open>cap\<close> holds.
\<close>

datatype atom = Cls "char \<Rightarrow> bool" nat "nat option" bool | Bol | Eol | WordB

record regex =
  atoms :: "atom list"
  multiline :: bool

abbreviation lit :: "char \<Rightarrow> atom" where
  "lit ch \<equiv> Cls (\<lambda>c. c = ch) 1 (Some 1) False"

abbreviation oneOrMore :: "(char \<Rightarrow> bool) \<Rightarrow> atom" where
  "oneOrMore c \<equiv> Cls c 1 None False"

abbreviation zeroOrMore :: "(char \<Rightarrow> bool) \<Rightarrow> atom" where
  "zeroOrMore c \<equiv> Cls c 0 None False"

abbreviation captured :: "(char \<Rightarrow> bool) \<Rightarrow> nat \<Rightarrow> atom" where
  "captured c lo \<equiv> Cls c lo None True"

definition run :: "(char \<Rightarrow> bool) \<Rightarrow> nat option \<Rightarrow> string \<Rightarrow> nat" where
  \<comment> \<open>how many characters a greedy quantifier takes at first\<close>
  "run c hi s = (let n = length (takeWhile c s) in case hi of None \<Rightarrow> n | Some h \<Rightarrow> min h n)"

definition prevAfter :: "char option \<Rightarrow> string \<Rightarrow> nat \<Rightarrow> char option" where
  \<comment> \<open>the character before the position reached by \<open>k\<close> steps into \<open>s\<close>\<close>
  "prevAfter p s k = (if k = 0 then p else Some (s ! (k - 1)))"

definition atBol :: "bool \<Rightarrow> char option \<Rightarrow> bool" where
  "atBol ml p = (case p of None \<Rightarrow> True | Some c \<Rightarrow> ml \<and> isLineTerminator c)"

definition atEol :: "bool \<Rightarrow> string \<Rightarrow> bool" where
  "atEol ml s = (case s of [] \<Rightarrow> True | c # _ \<Rightarrow> ml \<and> isLineTerminator c)"

definition atWordB :: "char option \<Rightarrow> string \<Rightarrow> bool" where
  "atWordB p s = ((case p of None \<Rightarrow> False | Some c \<Rightarrow> isWordChar c)
                  \<noteq> (case s of [] \<Rightarrow> False | c # _ \<Rightarrow> isWordChar c))"

text \<open>
  The backtracking matcher at one position: \<open>p\<close> is the character before the position,
  \<open>s\<close> the text from it on. A quantifier first takes the longest run (\<open>run\<close>) and gives
  characters back one at a time (\<open>backtrack\<close>) while the rest of the pattern fails. The
  result is the number of characters each atom took.
\<close>

fun matchAtoms :: "bool \<Rightarrow> atom list \<Rightarrow> char option \<Rightarrow> string \<Rightarrow> nat list option"
  and backtrack :: "bool \<Rightarrow> atom list \<Rightarrow> char option \<Rightarrow> string \<Rightarrow> nat \<Rightarrow> nat \<Rightarrow> nat list option"
where
  "matchAtoms ml [] p s = Some []"
| "matchAtoms ml (Bol # as) p s =
     (if atBol ml p then map_option (Cons 0) (matchAtoms ml as p s) else None)"
| "matchAtoms ml (Eol # as) p s =
     (if atEol ml s then map_option (Cons 0) (matchAtoms ml as p s) else None)"
| "matchAtoms ml (WordB # as) p s =
     (if atWordB p s then map_option (Cons 0) (matchAtoms ml as p s) else None)"
| "matchAtoms ml (Cls c lo hi cap # as) p s = backtrack ml as p s lo (run c hi s)"
| "backtrack ml as p s lo k =
     (if k < lo then None
      else (case matchAtoms ml as (prevAfter p s k) (drop k s) of
              Some ls \<Rightarrow> Some (k # ls)
            | None \<Rightarrow> (if k = 0 then None else backtrack ml as p s lo (k - 1))))"

declare backtrack.simps [simp del]

subsection \<open>The string methods that take a pattern\<close>

text \<open>
  \<open>search\<close> is the first position from the start of \<open>s\<close> where the pattern matches,
  with what each atom took there: one call of \<^verbatim>\<open>exec\<close>.
\<close>

fun search :: "regex \<Rightarrow> char option \<Rightarrow> string \<Rightarrow> (nat \<times> nat list) option" where
  "search r p [] = map_option (Pair 0) (matchAtoms (multiline r) (atoms r) p [])"
| "search r p (c # cs) =
     (case matchAtoms (multiline r) (atoms r) p (c # cs) of
        Some ls \<Rightarrow> Some (0, ls)
      | None \<Rightarrow> map_option (\<lambda>(i, ls). (Suc i, ls)) (search r (Some c) cs))"

fun groupsOf :: "atom list \<Rightarrow> nat list \<Rightarrow> string \<Rightarrow> string list" where
  "groupsOf (Cls c lo hi cap # as) (k # ks) s =
     (if cap then [take k s] else []) @ groupsOf as ks (drop k s)"
| "groupsOf (a # as) (k # ks) s = groupsOf as ks (drop k s)"
| "groupsOf as ks s = []"

definition matchFirst :: "regex \<Rightarrow> string \<Rightarrow> string list option" where
  \<comment> \<open>\<^verbatim>\<open>s.match(r)\<close> without the g flag: the match and its groups, \<open>None\<close> for null\<close>
  "matchFirst r s =
     (case search r None s of
        None \<Rightarrow> None
      | Some (i, ls) \<Rightarrow> Some (take (sum_list ls) (drop i s) # groupsOf (atoms r) ls (drop i s)))"

definition elemAt :: "'a list \<Rightarrow> nat \<Rightarrow> 'a option" where
  \<comment> \<open>\<^verbatim>\<open>xs[i]\<close>; \<open>None\<close> is undefined\<close>
  "elemAt xs i = (if i < length xs then Some (xs ! i) else None)"

text \<open>
  With the g flag the search starts again where the last match ended, one character
  further after an empty match.
\<close>

function matchAll :: "regex \<Rightarrow> char option \<Rightarrow> string \<Rightarrow> string list" where
  "matchAll r p s =
     (case search r p s of
        None \<Rightarrow> []
      | Some (i, ls) \<Rightarrow>
          (let n = sum_list ls; e = i + max n 1 in
           take n (drop i s) #
             (if length s < e then [] else matchAll r (prevAfter p s e) (drop e s))))"
  by pat_completeness auto
termination
  by (relation "measure (\<lambda>(r, p, s). length s)") auto

declare matchAll.simps [simp del]

definition matchGlobal :: "regex \<Rightarrow> string \<Rightarrow> string list option" where
  \<comment> \<open>\<^verbatim>\<open>s.match(r)\<close> with the g flag: every match, \<open>None\<close> (null) when there is none\<close>
  "matchGlobal r s = (case matchAll r None s of [] \<Rightarrow> None | m # ms \<Rightarrow> Some (m # ms))"

definition orEmpty :: "'a list option \<Rightarrow> 'a list" where
  \<comment> \<open>\<^verbatim>\<open>x || []\<close>\<close>
  "orEmpty x = (case x of None \<Rightarrow> [] | Some xs \<Rightarrow> xs)"

definition replaceFirst :: "regex \<Rightarrow> string \<Rightarrow> string \<Rightarrow> string" where
  \<comment> \<open>\<^verbatim>\<open>s.replace(r, rep)\<close> without the g flag\<close>
  "replaceFirst r rep s =
     (case search r None s of
        None \<Rightarrow> s
      | Some (i, ls) \<Rightarrow> take i s @ rep @ drop (i + sum_list ls) s)"

function replaceLoop :: "regex \<Rightarrow> string \<Rightarrow> char option \<Rightarrow> string \<Rightarrow> string" where
  "replaceLoop r rep p s =
     (case search r p s of
        None \<Rightarrow> s
      | Some (i, ls) \<Rightarrow>
          (let n = sum_list ls; e = i + max n 1 in
           take i s @ rep @ drop (i + n) (take e s) @
             (if length s < e then [] else replaceLoop r rep (prevAfter p s e) (drop e s))))"
  by pat_completeness auto
termination
  by (relation "measure (\<lambda>(r, rep, p, s). length s)") auto

declare replaceLoop.simps [simp del]

definition replaceGlobal :: "regex \<Rightarrow> string \<Rightarrow> string \<Rightarrow> string" where
  \<comment> \<open>\<^verbatim>\<open>s.replace(r, rep)\<close> with the g flag\<close>
  "replaceGlobal r rep s = replaceLoop r rep None s"

text \<open>
  \<^verbatim>\<open>s.split(r)\<close>: the pattern is tried at every position \<open>q\<close> after the last cut; \<open>acc\<close>
  is the piece since the last cut. A match that ends at the last cut is skipped.
\<close>

function splitLoop :: "regex \<Rightarrow> char option \<Rightarrow> string \<Rightarrow> string \<Rightarrow> string list" where
  "splitLoop r p acc [] = [acc]"
| "splitLoop r p acc (c # cs) =
     (case matchAtoms (multiline r) (atoms r) p (c # cs) of
        None \<Rightarrow> splitLoop r (Some c) (acc @ [c]) cs
      | Some ls \<Rightarrow>
          (let n = sum_list ls in
           if n = 0 then
             (if acc = [] then splitLoop r (Some c) [c] cs
              else acc # splitLoop r (Some c) [c] cs)
           else acc # splitLoop r (prevAfter p (c # cs) n) [] (drop n (c # cs))))"
  by pat_completeness auto
termination
  by (relation "measure (\<lambda>(r, p, acc, s). length s)") (auto dest!: member_le_sum_list)

definition split :: "regex \<Rightarrow> string \<Rightarrow> string list" where
  "split r s =
     (if s = [] then
        (case matchAtoms (multiline r) (atoms r) None [] of Some ls \<Rightarrow> [] | None \<Rightarrow> [[]])
      else splitLoop r None [] s)"

function splitStrLoop :: "string \<Rightarrow> string \<Rightarrow> string \<Rightarrow> string list" where
  "splitStrLoop sep acc [] = [acc]"
| "splitStrLoop sep acc (c # cs) =
     (if 0 < length sep \<and> startsWith (c # cs) sep
      then acc # splitStrLoop sep [] (drop (length sep) (c # cs))
      else splitStrLoop sep (acc @ [c]) cs)"
  by pat_completeness auto
termination
  by (relation "measure (\<lambda>(sep, acc, s). length s)") auto

definition splitStr :: "string \<Rightarrow> string \<Rightarrow> string list" where
  \<comment> \<open>\<^verbatim>\<open>s.split(sep)\<close> for a string \<open>sep\<close>; the empty separator cuts between all characters\<close>
  "splitStr sep s = (if sep = [] then map (\<lambda>c. [c]) s else splitStrLoop sep [] s)"


section \<open>Numbers\<close>

text \<open>
  A JavaScript number is modelled as an exact rational, or one of the three values a
  division can add: \<open>NaN\<close> and the two infinities. The rounding of IEEE doubles is not
  modelled. Every zero of the program is a length or a count, so a zero divisor is +0.
\<close>

datatype jsnum = Fin rat | PosInf | NegInf | NaN

fun js_neg :: "jsnum \<Rightarrow> jsnum" where
  "js_neg (Fin a) = Fin (- a)"
| "js_neg PosInf = NegInf"
| "js_neg NegInf = PosInf"
| "js_neg NaN = NaN"

fun js_add :: "jsnum \<Rightarrow> jsnum \<Rightarrow> jsnum" where
  "js_add NaN y = NaN"
| "js_add x NaN = NaN"
| "js_add (Fin a) (Fin b) = Fin (a + b)"
| "js_add PosInf NegInf = NaN"
| "js_add NegInf PosInf = NaN"
| "js_add PosInf y = PosInf"
| "js_add NegInf y = NegInf"
| "js_add (Fin a) y = y"

definition js_sub :: "jsnum \<Rightarrow> jsnum \<Rightarrow> jsnum" where
  "js_sub x y = js_add x (js_neg y)"

fun js_mul :: "jsnum \<Rightarrow> jsnum \<Rightarrow> jsnum" where
  "js_mul NaN y = NaN"
| "js_mul x NaN = NaN"
| "js_mul (Fin a) (Fin b) = Fin (a * b)"
| "js_mul (Fin a) PosInf = (if a = 0 then NaN else if 0 < a then PosInf else NegInf)"
| "js_mul (Fin a) NegInf = (if a = 0 then NaN else if 0 < a then NegInf else PosInf)"
| "js_mul PosInf (Fin b) = (if b = 0 then NaN else if 0 < b then PosInf else NegInf)"
| "js_mul NegInf (Fin b) = (if b = 0 then NaN else if 0 < b then NegInf else PosInf)"
| "js_mul PosInf PosInf = PosInf"
| "js_mul NegInf NegInf = PosInf"
| "js_mul PosInf NegInf = NegInf"
| "js_mul NegInf PosInf = NegInf"

fun js_div :: "jsnum \<Rightarrow> jsnum \<Rightarrow> jsnum" where
  "js_div NaN y = NaN"
| "js_div x NaN = NaN"
| "js_div (Fin a) (Fin b) =
     (if b = 0 then (if a = 0 then NaN else if 0 < a then PosInf else NegInf)
      else Fin (a / b))"
| "js_div (Fin a) y = Fin 0"
| "js_div PosInf (Fin b) = (if b < 0 then NegInf else PosInf)"
| "js_div NegInf (Fin b) = (if b < 0 then PosInf else NegInf)"
| "js_div x y = NaN"

fun js_gt :: "jsnum \<Rightarrow> jsnum \<Rightarrow> bool" where
  \<comment> \<open>\<^verbatim>\<open>x > y\<close>: false when either side is NaN\<close>
  "js_gt NaN y = False"
| "js_gt x NaN = False"
| "js_gt (Fin a) (Fin b) = (b < a)"
| "js_gt PosInf PosInf = False"
| "js_gt PosInf y = True"
| "js_gt x PosInf = False"
| "js_gt NegInf y = False"
| "js_gt (Fin a) NegInf = True"

fun Math_max :: "jsnum \<Rightarrow> jsnum \<Rightarrow> jsnum" where
  "Math_max NaN y = NaN"
| "Math_max x NaN = NaN"
| "Math_max x y = (if js_gt y x then y else x)"

fun Math_min :: "jsnum \<Rightarrow> jsnum \<Rightarrow> jsnum" where
  "Math_min NaN y = NaN"
| "Math_min x NaN = NaN"
| "Math_min x y = (if js_gt x y then y else x)"

definition round_half_up :: "rat \<Rightarrow> int" where
  "round_half_up x = \<lfloor>x + 1 / 2\<rfloor>"

fun Math_round :: "jsnum \<Rightarrow> jsnum" where
  "Math_round (Fin a) = Fin (of_int (round_half_up a))"
| "Math_round x = x"

definition num :: "nat \<Rightarrow> jsnum" where
  \<comment> \<open>a length or a count, as a number\<close>
  "num n = Fin (of_nat n)"

section \<open>The SEO checks\<close>

record SEOCheckResult =
  score :: rat
  suggestions :: "string list"

datatype error = TypeError

definition re_whitespace :: regex where
  \<comment> \<open>\<^verbatim>\<open>/\s+/\<close>\<close>
  "re_whitespace = \<lparr>atoms = [oneOrMore isWhiteSpace], multiline = False\<rparr>"

subsection \<open>calculateKeywordDensity\<close>

text \<open>
  \<^verbatim>\<open>wordFrequency\<close> is an object used as a dictionary, kept here as an association
  list in the order of insertion. Its keys are lower-case words, and two of them meet
  a property of \<^verbatim>\<open>Object.prototype\<close>: reading \<^verbatim>\<open>constructor\<close> gives a function, so that
  \<^verbatim>\<open>(f || 0) + 1\<close> is a string (\<open>Junk\<close>, never greater than 1), and a string assigned
  to \<^verbatim>\<open>__proto__\<close> is dropped.
\<close>

datatype freq = Count nat | Junk

definition countWord :: "(string \<times> freq) list \<Rightarrow> string \<Rightarrow> (string \<times> freq) list" where
  "countWord wordFrequency word =
     (if 3 < length word then
        (if word = ''__proto__'' then wordFrequency
         else (case map_of wordFrequency word of
                 None \<Rightarrow> wordFrequency @ [(word, if word = ''constructor'' then Junk else Count 1)]
               | Some v \<Rightarrow>
                   map (\<lambda>(k, x). if k = word
                          then (k, case v of Count n \<Rightarrow> Count (n + 1) | Junk \<Rightarrow> Junk)
                          else (k, x)) wordFrequency))
      else wordFrequency)"

fun countOf :: "freq \<Rightarrow> nat" where
  "countOf (Count n) = n"
| "countOf Junk = 0"

fun isRepeated :: "string \<times> freq \<Rightarrow> bool" where
  \<comment> \<open>\<^verbatim>\<open>count > 1\<close>\<close>
  "isRepeated (w, Count n) = (1 < n)"
| "isRepeated (w, Junk) = False"

definition calculateKeywordDensity :: "string \<Rightarrow> SEOCheckResult" where
  "calculateKeywordDensity text =
     (let words = split re_whitespace (toLowerCase text);
          wordFrequency = foldl countWord [] words;
          keywords = take 5 (sort_key (\<lambda>(w, c). - int (countOf c)) (filter isRepeated wordFrequency))
      in if length keywords = 0 then
           \<lparr>score = 3 / 10, suggestions =
              [''No clear keywords found. Consider using relevant keywords multiple times.'']\<rparr>
         else if length keywords < 3 then
           \<lparr>score = 6 / 10, suggestions =
              [''Limited keyword usage. Try incorporating more relevant keywords.'']\<rparr>
         else \<lparr>score = 1, suggestions = []\<rparr>)"

subsection \<open>checkTitleLength\<close>

definition re_title :: regex where
  \<comment> \<open>\<^verbatim>\<open>/^#\s+(.+)$/m\<close>\<close>
  "re_title = \<lparr>atoms = [Bol, lit CHR ''#'', oneOrMore isWhiteSpace, captured dot 1, Eol],
                multiline = True\<rparr>"

definition checkTitleLength :: "string \<Rightarrow> error + SEOCheckResult" where
  "checkTitleLength text =
     (case matchFirst re_title text of
        None \<Rightarrow> Inr \<lparr>score = 0, suggestions =
          [''No main title (H1) found. Add a clear title at the beginning.'']\<rparr>
      | Some titleMatch \<Rightarrow>
          (case elemAt titleMatch 1 of
             None \<Rightarrow> Inl TypeError
           | Some title \<Rightarrow>
               (let titleLength = length title in
                if titleLength < 30 then Inr \<lparr>score = 1 / 2, suggestions =
                  [''Title is too short. Aim for 50-60 characters for better SEO.'']\<rparr>
                else if 60 < titleLength then Inr \<lparr>score = 7 / 10, suggestions =
                  [''Title is too long. Keep it under 60 characters for better visibility in search results.'']\<rparr>
                else Inr \<lparr>score = 1, suggestions = []\<rparr>)))"

subsection \<open>checkMetaDescription\<close>

definition re_heading_line :: regex where
  \<comment> \<open>\<^verbatim>\<open>/^#.*\n/\<close>\<close>
  "re_heading_line = \<lparr>atoms = [Bol, lit CHR ''#'', zeroOrMore dot, lit CHR 0x0A],
                       multiline = False\<rparr>"

definition checkMetaDescription :: "string \<Rightarrow> error + SEOCheckResult" where
  "checkMetaDescription text =
     (case elemAt (splitStr [CHR 0x0A, CHR 0x0A] text) 0 of
        None \<Rightarrow> Inl TypeError
      | Some first \<Rightarrow>
          (let firstParagraph = trim (replaceFirst re_heading_line [] first) in
           if firstParagraph = [] then Inr \<lparr>score = 0, suggestions =
             [''Add a clear introductory paragraph that summarizes your content.'']\<rparr>
           else if length firstParagraph < 120 then Inr \<lparr>score = 1 / 2, suggestions =
             [''Introduction is too short. Aim for 150-160 characters for better search visibility.'']\<rparr>
           else if 160 < length firstParagraph then Inr \<lparr>score = 7 / 10, suggestions =
             [''Introduction is too long. Keep it under 160 characters for optimal display in search results.'']\<rparr>
           else Inr \<lparr>score = 1, suggestions = []\<rparr>))"

subsection \<open>checkHeadings\<close>

definition re_headings :: regex where
  \<comment> \<open>\<^verbatim>\<open>/^#{1,6}\s+.+$/gm\<close>\<close>
  "re_headings = \<lparr>atoms = [Bol, Cls (\<lambda>c. c = CHR ''#'') 1 (Some 6) False,
                             oneOrMore isWhiteSpace, oneOrMore dot, Eol],
                   multiline = True\<rparr>"

definition headingsOf :: "string \<Rightarrow> string list" where
  \<comment> \<open>the local \<^verbatim>\<open>headings\<close>\<close>
  "headingsOf text = orEmpty (matchGlobal re_headings text)"

definition h1Count :: "string list \<Rightarrow> nat" where
  "h1Count headings = length (filter (\<lambda>h. startsWith h ''# '') headings)"

definition hasSubheadings :: "string list \<Rightarrow> bool" where
  "hasSubheadings headings = list_ex (\<lambda>h. startsWith h ''## '') headings"

definition checkHeadings :: "string \<Rightarrow> SEOCheckResult" where
  "checkHeadings text =
     (let headings = headingsOf text in
      if length headings = 0 then
        \<lparr>score = 0, suggestions =
           [''No headings found. Use headings to structure your content.'']\<rparr>
      else
        (let r1 = (if h1Count headings = 0 then
                     \<lparr>score = 3 / 10, suggestions = [''Add a main heading (H1) to your content.'']\<rparr>
                   else if 1 < h1Count headings then
                     \<lparr>score = 1 / 2, suggestions =
                        [''Multiple H1 headings found. Use only one main heading.'']\<rparr>
                   else \<lparr>score = 1, suggestions = []\<rparr>)
         in if hasSubheadings headings then r1
            else \<lparr>score = score r1 * (7 / 10), suggestions = suggestions r1 @
                   [''Add subheadings (H2, H3) to better structure your content.'']\<rparr>))"

subsection \<open>checkLinks and checkImageAlt\<close>

definition re_link :: regex where
  \<comment> \<open>\<^verbatim>\<open>/\[([^\]]+)\]\(([^)]+)\)/g\<close>\<close>
  "re_link = \<lparr>atoms = [lit CHR ''['', captured (\<lambda>c. c \<noteq> CHR '']'') 1, lit CHR '']'',
                         lit CHR ''('', captured (\<lambda>c. c \<noteq> CHR '')'') 1, lit CHR '')''],
               multiline = False\<rparr>"

definition linksOf :: "string \<Rightarrow> string list" where
  \<comment> \<open>the local \<^verbatim>\<open>links\<close>\<close>
  "linksOf text = orEmpty (matchGlobal re_link text)"

definition checkLinks :: "string \<Rightarrow> SEOCheckResult" where
  "checkLinks text =
     (let links = linksOf text in
      if length links = 0 then
        \<lparr>score = 1 / 2, suggestions =
           [''No links found. Add relevant internal or external links to enhance content value.'']\<rparr>
      else
        (let hasEmptyAnchors = list_ex (\<lambda>link. includesStr link ''[]'') links in
         if hasEmptyAnchors then
           \<lparr>score = 7 / 10, suggestions =
              [''Some links have empty anchor text. Add descriptive text to all links.'']\<rparr>
         else \<lparr>score = 1, suggestions = []\<rparr>))"

definition re_image :: regex where
  \<comment> \<open>\<^verbatim>\<open>/!\[([^\]]*)\]\(([^)]+)\)/g\<close>\<close>
  "re_image = \<lparr>atoms = [lit CHR ''!'', lit CHR ''['', captured (\<lambda>c. c \<noteq> CHR '']'') 0,
                          lit CHR '']'', lit CHR ''('', captured (\<lambda>c. c \<noteq> CHR '')'') 1,
                          lit CHR '')''],
                multiline = False\<rparr>"

definition re_missing_alt :: regex where
  \<comment> \<open>\<^verbatim>\<open>/!\[\]\(/\<close>\<close>
  "re_missing_alt = \<lparr>atoms = [lit CHR ''!'', lit CHR ''['', lit CHR '']'', lit CHR ''(''],
                      multiline = False\<rparr>"

definition imagesOf :: "string \<Rightarrow> string list" where
  \<comment> \<open>the local \<^verbatim>\<open>images\<close>\<close>
  "imagesOf text = orEmpty (matchGlobal re_image text)"

definition checkImageAlt :: "string \<Rightarrow> SEOCheckResult" where
  "checkImageAlt text =
     (let images = imagesOf text in
      if 0 < length images then
        (let missingAlt = list_ex (\<lambda>img. matchFirst re_missing_alt img \<noteq> None) images in
         if missingAlt then
           \<lparr>score = 1 / 2, suggestions =
              [''Some images are missing alt text. Add descriptive alt text to all images.'']\<rparr>
         else \<lparr>score = 1, suggestions = []\<rparr>)
      else \<lparr>score = 1, suggestions = []\<rparr>)"

subsection \<open>checkContentLength and checkParagraphLength\<close>

definition checkContentLength :: "string \<Rightarrow> SEOCheckResult" where
  "checkContentLength text =
     (let wordCount = length (split re_whitespace text) in
      if wordCount < 300 then
        \<lparr>score = 3 / 10, suggestions =
           [''Content is too short. Aim for at least 300 words for better SEO.'']\<rparr>
      else if wordCount < 600 then
        \<lparr>score = 7 / 10, suggestions =
           [''Consider adding more content. Long-form content (1000+ words) typically ranks better.'']\<rparr>
      else \<lparr>score = 1, suggestions = []\<rparr>)"

definition re_blank_lines :: regex where
  \<comment> \<open>\<^verbatim>\<open>/\n\n+/\<close>\<close>
  "re_blank_lines = \<lparr>atoms = [lit CHR 0x0A, oneOrMore (\<lambda>c. c = CHR 0x0A)],
                      multiline = False\<rparr>"

definition checkParagraphLength :: "string \<Rightarrow> SEOCheckResult" where
  "checkParagraphLength text =
     (let paragraphs = split re_blank_lines text;
          longParagraphs = filter (\<lambda>p. 150 < length (split re_whitespace p)) paragraphs
      in if 0 < length longParagraphs then
           \<lparr>score = 7 / 10, suggestions =
              [''Some paragraphs are too long. Break them into smaller chunks for better readability.'']\<rparr>
         else \<lparr>score = 1, suggestions = []\<rparr>)"


section \<open>Readability, as in src/App.tsx\<close>

definition re_non_letter :: regex where
  \<comment> \<open>\<^verbatim>\<open>/[^a-z]/g\<close>\<close>
  "re_non_letter = \<lparr>atoms = [Cls (\<lambda>c. \<not> isLowerAZ c) 1 (Some 1) False], multiline = False\<rparr>"

definition re_trailing_e :: regex where
  \<comment> \<open>\<^verbatim>\<open>/e\b/g\<close>\<close>
  "re_trailing_e = \<lparr>atoms = [lit CHR ''e'', WordB], multiline = False\<rparr>"

definition re_vowel_run :: regex where
  \<comment> \<open>\<^verbatim>\<open>/[aeiou]{2,}/g\<close>\<close>
  "re_vowel_run = \<lparr>atoms = [Cls (\<lambda>c. c \<in> set ''aeiou'') 2 None False], multiline = False\<rparr>"

definition re_vowel :: regex where
  \<comment> \<open>\<^verbatim>\<open>/[aeiouy]/g\<close>\<close>
  "re_vowel = \<lparr>atoms = [Cls (\<lambda>c. c \<in> set ''aeiouy'') 1 (Some 1) False], multiline = False\<rparr>"

definition countSyllables :: "string \<Rightarrow> nat" where
  "countSyllables text =
     (let word = matchGlobal re_vowel
                   (replaceGlobal re_vowel_run ''a''
                     (replaceGlobal re_trailing_e []
                       (replaceGlobal re_non_letter [] (toLowerCase text))))
      in case word of Some ms \<Rightarrow> length ms | None \<Rightarrow> 0)"

definition re_sentence_end :: regex where
  \<comment> \<open>\<^verbatim>\<open>/[.!?]+/\<close>\<close>
  "re_sentence_end = \<lparr>atoms = [oneOrMore (\<lambda>c. c \<in> set ''.!?'')], multiline = False\<rparr>"

definition sentencesOf :: "string \<Rightarrow> string list" where
  \<comment> \<open>the local \<^verbatim>\<open>sentences\<close>\<close>
  "sentencesOf text = filter (\<lambda>s. 0 < length (trim s)) (split re_sentence_end text)"

definition wordsOf :: "string \<Rightarrow> string list" where
  \<comment> \<open>the local \<^verbatim>\<open>words\<close> of the whole text\<close>
  "wordsOf text = filter (\<lambda>w. 0 < length w) (split re_whitespace text)"

definition addSyllables :: "nat \<Rightarrow> string \<Rightarrow> nat" where
  \<comment> \<open>the reducer \<^verbatim>\<open>(count, word) => count + countSyllables(word)\<close>\<close>
  "addSyllables count word = count + countSyllables word"

definition sumSyllables :: "string list \<Rightarrow> nat" where
  \<comment> \<open>\<^verbatim>\<open>words.reduce((count, word) => count + countSyllables(word), 0)\<close>\<close>
  "sumSyllables words = foldl addSyllables 0 words"

definition gradeFormula :: "jsnum \<Rightarrow> jsnum \<Rightarrow> jsnum" where
  \<comment> \<open>\<^verbatim>\<open>0.39 * a + 11.8 * b - 15.59\<close>\<close>
  "gradeFormula a b =
     js_sub (js_add (js_mul (Fin (39 / 100)) a) (js_mul (Fin (118 / 10)) b)) (Fin (1559 / 100))"

definition calculateReadabilityScore :: "string \<Rightarrow> jsnum" where
  "calculateReadabilityScore text =
     (let sentences = sentencesOf text;
          words = wordsOf text
      in if length sentences = 0 \<or> length words = 0 then Fin 100
         else
           (let syllables = sumSyllables words;
                avgSentenceLength = js_div (num (length words)) (num (length sentences));
                avgSyllablesPerWord = js_div (num syllables) (num (length words));
                grade = gradeFormula avgSentenceLength avgSyllablesPerWord;
                score = Math_max (Fin 0) (Math_min (Fin 100) (js_sub (Fin 100) (js_mul grade (Fin 8))))
            in Math_round score))"

text \<open>The object that \<^verbatim>\<open>analyzeReadability\<close> returns; \<open>rscore\<close> is its field \<^verbatim>\<open>score\<close>.\<close>

record ReadabilityResult =
  rscore :: jsnum
  hardSentences :: "string list"
  veryHardSentences :: "string list"
  grade :: jsnum

text \<open>
  The body of the \<^verbatim>\<open>forEach\<close> over the sentences: the state is the pair of the two
  arrays, \<^verbatim>\<open>hardSentences\<close> first.
\<close>

definition sentenceStep :: "string list \<times> string list \<Rightarrow> string \<Rightarrow> string list \<times> string list" where
  "sentenceStep st sentence =
     (let words = split re_whitespace (trim sentence);
          wordCount = length words;
          syllables = sumSyllables words;
          avgSyllablesPerWord = js_div (num syllables) (num wordCount)
      in if 30 < wordCount \<or> js_gt avgSyllablesPerWord (Fin (5 / 2)) then
           (fst st, snd st @ [trim sentence])
         else if 20 < wordCount \<or> js_gt avgSyllablesPerWord (Fin 2) then
           (fst st @ [trim sentence], snd st)
         else st)"

definition analyzeReadability :: "string \<Rightarrow> ReadabilityResult" where
  "analyzeReadability text =
     (let sentences = sentencesOf text;
          st = foldl sentenceStep ([], []) sentences;
          words = wordsOf text;
          totalSyllables = sumSyllables words;
          g = Math_round (gradeFormula
                (js_div (num (length words)) (num (length sentences)))
                (js_div (num totalSyllables) (num (length words))))
      in \<lparr>rscore = calculateReadabilityScore text,
          hardSentences = fst st,
          veryHardSentences = snd st,
          grade = Math_max (Fin 1) (Math_min (Fin 12) g)\<rparr>)"

section \<open>Readability, as in the second source file\<close>

text \<open>
  The second file (src/unnamed/part_000) has the same eight checks and its own syllable
  count, ease score and sentence classes; its definitions carry the suffix \<open>_part0\<close>.
\<close>

definition re_non_vowels :: regex where
  \<comment> \<open>\<^verbatim>\<open>/[^aeiouy]+/g\<close>\<close>
  "re_non_vowels = \<lparr>atoms = [oneOrMore (\<lambda>c. c \<notin> set ''aeiouy'')], multiline = False\<rparr>"

definition countSyllables_part0 :: "string \<Rightarrow> nat" where
  "countSyllables_part0 text =
     length (filter (\<lambda>w. w \<noteq> [])
       (splitStr '' ''
         (trim (replaceGlobal re_non_vowels '' ''
           (replaceGlobal re_non_letter [] (toLowerCase text))))))"

definition calculateReadabilityScore_part0 :: "string \<Rightarrow> jsnum" where
  "calculateReadabilityScore_part0 text =
     (let sentences = split re_sentence_end text;
          words = split re_whitespace text;
          syllables = countSyllables_part0 text;
          avgWordsPerSentence = js_div (num (length words)) (num (length sentences));
          avgSyllablesPerWord = js_div (num syllables) (num (length words));
          readabilityScore =
            js_sub (js_sub (Fin (206835 / 1000)) (js_mul (Fin (1015 / 1000)) avgWordsPerSentence))
                   (js_mul (Fin (846 / 10)) avgSyllablesPerWord)
      in Math_min (Fin 100) (Math_max (Fin 0) (Math_round readabilityScore)))"

definition sentenceStep_part0 :: "string list \<times> string list \<Rightarrow> string \<Rightarrow> string list \<times> string list" where
  "sentenceStep_part0 st sentence =
     (let words = split re_whitespace (trim sentence);
          syllables = countSyllables_part0 sentence;
          avgSyllablesPerWord = js_div (num syllables) (num (length words))
      in if js_gt avgSyllablesPerWord (Fin (5 / 2)) \<or> 30 < length words then
           (fst st, snd st @ [trim sentence])
         else if js_gt avgSyllablesPerWord (Fin 2) \<or> 20 < length words then
           (fst st @ [trim sentence], snd st)
         else st)"

definition analyzeReadability_part0 :: "string \<Rightarrow> ReadabilityResult" where
  "analyzeReadability_part0 text =
     (let sentences = sentencesOf text;
          st = foldl sentenceStep_part0 ([], []) sentences;
          words = wordsOf text;
          totalSyllables = countSyllables_part0 text;
          g = Math_round (gradeFormula
                (js_div (num (length words)) (num (length sentences)))
                (js_div (num totalSyllables) (num (length words))))
      in \<lparr>rscore = calculateReadabilityScore_part0 text,
          hardSentences = fst st,
          veryHardSentences = snd st,
          grade = Math_max (Fin 1) (Math_min (Fin 12) g)\<rparr>)"

section \<open>The aggregator analyzeSEO\<close>

text \<open>
  \<^verbatim>\<open>analyzeSEO\<close> is a closure of the component \<^verbatim>\<open>App\<close>: it reads the text and writes six
  of the component's state variables. The state is passed in and returned. The second
  file defines it, with its own readability analyzer; src/App.tsx calls it and holds
  no definition of it.
\<close>

record AppState =
  st_content :: string
  st_seoScore :: int
  st_readabilityScore :: jsnum
  st_suggestions :: "string list"
  st_loading :: bool
  st_error :: "string option"
  st_hardSentences :: "string list"
  st_veryHardSentences :: "string list"
  st_grade :: jsnum

definition seoChecks :: "string \<Rightarrow> error + SEOCheckResult list" where
  \<comment> \<open>the values of the object \<^verbatim>\<open>seoChecks\<close>, in the order of its keys\<close>
  "seoChecks text =
     (case checkTitleLength text of
        Inl e \<Rightarrow> Inl e
      | Inr titleLength \<Rightarrow>
          (case checkMetaDescription text of
             Inl e \<Rightarrow> Inl e
           | Inr metaDescription \<Rightarrow>
               Inr [calculateKeywordDensity text, titleLength, metaDescription,
                    checkHeadings text, checkLinks text, checkImageAlt text,
                    checkContentLength text, checkParagraphLength text]))"

definition overallScore :: "SEOCheckResult list \<Rightarrow> int" where
  \<comment> \<open>\<^verbatim>\<open>Math.round(reduce((acc, val) => acc + val.score, 0) / 8 * 100)\<close>\<close>
  "overallScore checks = round_half_up (foldl (\<lambda>acc val. acc + score val) 0 checks / 8 * 100)"

definition newSuggestions :: "SEOCheckResult list \<Rightarrow> string list" where
  "newSuggestions checks =
     concat (map suggestions (filter (\<lambda>check. 0 < length (suggestions check)) checks))"

definition analyzeSEO :: "string \<Rightarrow> AppState \<Rightarrow> error + AppState" where
  "analyzeSEO text st =
     (case seoChecks text of
        Inl e \<Rightarrow> Inl e
      | Inr checks \<Rightarrow>
          (let r = analyzeReadability_part0 text in
           Inr (st\<lparr>st_seoScore := overallScore checks,
                   st_suggestions := newSuggestions checks,
                   st_readabilityScore := rscore r,
                   st_hardSentences := hardSentences r,
                   st_veryHardSentences := veryHardSentences r,
                   st_grade := grade r\<rparr>)))"

section \<open>Definitions used to state the properties\<close>

definition isIntBetween :: "int \<Rightarrow> int \<Rightarrow> jsnum \<Rightarrow> bool" where
  \<comment> \<open>the number is an integer of the closed range\<close>
  "isIntBetween lo hi x =
     (case x of Fin q \<Rightarrow> of_int \<lfloor>q\<rfloor> = q \<and> of_int lo \<le> q \<and> q \<le> of_int hi | _ \<Rightarrow> False)"







text \<open>What \<open>analyzeSEO\<close> writes, and two calls of it in a row.\<close>

definition outputs :: "AppState \<Rightarrow> int \<times> string list \<times> jsnum \<times> string list \<times> string list \<times> jsnum" where
  "outputs st = (st_seoScore st, st_suggestions st, st_readabilityScore st,
                 st_hardSentences st, st_veryHardSentences st, st_grade st)"

definition analyzeTwice :: "string \<Rightarrow> AppState \<Rightarrow> error + AppState" where
  "analyzeTwice t st = (case analyzeSEO t st of Inl e \<Rightarrow> Inl e | Inr st' \<Rightarrow> analyzeSEO t st')"

definition initialState :: AppState where
  \<comment> \<open>the initial values of the \<^verbatim>\<open>useState\<close> calls\<close>
  "initialState = \<lparr>st_content = [], st_seoScore = 0, st_readabilityScore = Fin 0,
     st_suggestions = [], st_loading = False, st_error = None, st_hardSentences = [],
     st_veryHardSentences = [], st_grade = Fin 0\<rparr>"

definition stripped :: "string \<Rightarrow> string" where
  \<comment> \<open>the first two steps of both syllable counts\<close>
  "stripped s = replaceGlobal re_non_letter [] (toLowerCase s)"

section \<open>The matcher and the string methods\<close>

lemma backtrack_zero: "0 < lo \<Longrightarrow> backtrack ml as p s lo 0 = None"
  by (subst backtrack.simps) simp

lemma matchAtoms_length:
  "matchAtoms ml as p s = Some ls \<Longrightarrow> length ls = length as"
  "backtrack ml as p s lo k = Some ls \<Longrightarrow> length ls = Suc (length as)"
proof (induction ml as p s and ml as p s lo k arbitrary: ls and ls rule: matchAtoms_backtrack.induct)
  case (6 ml as p s lo k)
  then show ?case
    by (subst (asm) (2) backtrack.simps) (auto split: if_splits option.splits)
qed (auto split: if_splits)

lemma search_length: "search r p s = Some (i, ls) \<Longrightarrow> length ls = length (atoms r)"
  by (induction s arbitrary: p i) (auto split: option.splits dest: matchAtoms_length(1))

text \<open>A literal character, and a run of a class that ends at a character outside it.\<close>

lemma match_lit:
  "matchAtoms ml (lit x # as) p (x # s) = map_option (Cons 1) (matchAtoms ml as (Some x) s)"
proof -
  have r: "run (\<lambda>c. c = x) (Some 1) (x # s) = 1" by (simp add: run_def)
  have "backtrack ml as p (x # s) 1 1 = map_option (Cons 1) (matchAtoms ml as (Some x) s)"
    by (subst backtrack.simps) (simp add: prevAfter_def backtrack_zero split: option.splits)
  then show ?thesis by (simp only: matchAtoms.simps r)
qed

lemma match_run:
  assumes "list_all c xs" and "xs \<noteq> []" and "\<not> c y"
    and "matchAtoms ml as (Some (last xs)) (y # s) = Some ls"
    and "lo \<le> length xs"
  shows "matchAtoms ml (Cls c lo None cap # as) p (xs @ y # s) = Some (length xs # ls)"
proof -
  from assms(1,3) have r: "run c None (xs @ y # s) = length xs"
    by (simp add: run_def list_all_iff takeWhile_append2)
  from assms(2) have pa: "prevAfter p (xs @ y # s) (length xs) = Some (last xs)"
    by (simp add: prevAfter_def nth_append last_conv_nth)
  have "backtrack ml as p (xs @ y # s) lo (length xs) = Some (length xs # ls)"
    using assms(2,4,5) by (subst backtrack.simps) (simp add: pa)
  then show ?thesis by (simp only: matchAtoms.simps r)
qed

text \<open>A pattern that matches somewhere is found by the search.\<close>

lemma search_finds:
  "matchAtoms (multiline r) (atoms r) (prevAfter p s i) (drop i s) = Some ls \<Longrightarrow> i \<le> length s
   \<Longrightarrow> search r p s \<noteq> None"
proof (induction s arbitrary: p i)
  case Nil
  then show ?case by (simp add: prevAfter_def)
next
  case (Cons c cs)
  show ?case
  proof (cases i)
    case 0
    with Cons.prems show ?thesis by (simp add: prevAfter_def)
  next
    case (Suc j)
    have "prevAfter p (c # cs) (Suc j) = prevAfter (Some c) cs j"
      by (cases j) (simp_all add: prevAfter_def)
    with Suc Cons.prems
    have "matchAtoms (multiline r) (atoms r) (prevAfter (Some c) cs j) (drop j cs) = Some ls"
      by simp
    moreover from Suc Cons.prems have "j \<le> length cs" by simp
    ultimately have "search r (Some c) cs \<noteq> None" by (rule Cons.IH)
    then show ?thesis by (auto split: option.splits)
  qed
qed

lemma matchAll_nonempty: "search r p s \<noteq> None \<Longrightarrow> matchAll r p s \<noteq> []"
  by (subst matchAll.simps) (auto simp: Let_def)

text \<open>A pattern that starts with a class is not found in a text without that class.\<close>

lemma run_none: "list_all (\<lambda>x. \<not> c x) s \<Longrightarrow> run c hi s = 0"
  by (cases s) (auto simp: run_def split: option.splits)

lemma search_class_none:
  "list_all (\<lambda>x. \<not> c x) s \<Longrightarrow> 0 < lo \<Longrightarrow> atoms r = Cls c lo hi cap # as \<Longrightarrow> search r p s = None"
  by (induction s arbitrary: p) (auto simp: run_none backtrack.simps)

lemma replaceLoop_class_none:
  "list_all (\<lambda>x. \<not> c x) s \<Longrightarrow> 0 < lo \<Longrightarrow> atoms r = Cls c lo hi cap # as \<Longrightarrow>
   replaceLoop r rep p s = s"
  by (subst replaceLoop.simps) (simp add: search_class_none)

lemma matchAll_class_none:
  "list_all (\<lambda>x. \<not> c x) s \<Longrightarrow> 0 < lo \<Longrightarrow> atoms r = Cls c lo hi cap # as \<Longrightarrow>
   matchAll r p s = []"
  by (subst matchAll.simps) (simp add: search_class_none)

text \<open>A text that is one run of the class is replaced as a whole.\<close>

lemma replaceLoop_class_all:
  assumes "list_all c s" and "s \<noteq> []" and "atoms r = [Cls c 1 None cap]"
  shows "replaceLoop r rep p s = rep"
proof -
  from assms(1) have run: "run c None s = length s"
    by (simp add: run_def list_all_iff takeWhile_eq_all_conv[THEN iffD2])
  from assms(2) have len: "0 < length s" by simp
  have m: "matchAtoms (multiline r) (atoms r) p s = Some [length s]"
    using len by (simp add: assms(3) run backtrack.simps)
  have s: "search r p s = Some (0, [length s])"
    using m assms(2) by (cases s) simp_all
  have e: "search r q [] = None" for q
    by (simp add: assms(3) run_def backtrack.simps)
  have "replaceLoop r rep q [] = []" for q
    by (subst replaceLoop.simps, subst e) simp
  then show ?thesis
    using len by (subst replaceLoop.simps, subst s) (simp add: Let_def max_def)
qed

text \<open>A replacement adds no character but those of the replacement.\<close>

lemma replaceLoop_subset: "set (replaceLoop r rep p s) \<subseteq> set s \<union> set rep"
proof (induction r rep p s rule: replaceLoop.induct)
  case (1 r rep p s)
  show ?case
  proof (cases "search r p s")
    case None
    then show ?thesis by (subst replaceLoop.simps) simp
  next
    case (Some a)
    obtain i ls where a: "a = (i, ls)" by (cases a)
    let ?n = "sum_list ls" let ?e = "i + max ?n 1"
    show ?thesis
    proof (cases "length s < ?e")
      case True
      with Some a show ?thesis
        by (subst replaceLoop.simps) (auto simp: Let_def dest: in_set_takeD in_set_dropD)
    next
      case False
      with 1[OF Some a[symmetric] refl refl]
      have "set (replaceLoop r rep (prevAfter p s ?e) (drop ?e s)) \<subseteq> set (drop ?e s) \<union> set rep"
        by simp
      with Some a False show ?thesis
        by (subst replaceLoop.simps) (auto simp: Let_def dest: in_set_takeD in_set_dropD)
    qed
  qed
qed

lemma replaceLoop_keeps:
  assumes "list_all P s" and "list_all P rep"
  shows "list_all P (replaceLoop r rep p s)"
  using assms replaceLoop_subset[of r rep p s] unfolding list_all_iff by blast

text \<open>A split is never the empty array.\<close>

lemma splitLoop_nonempty: "splitLoop r p acc s \<noteq> []"
  by (induction r p acc s rule: splitLoop.induct) (auto split: option.splits simp: Let_def)

lemma split_whitespace_nonempty: "split re_whitespace s \<noteq> []"
  by (cases s) (auto simp: split_def re_whitespace_def run_def backtrack.simps splitLoop_nonempty)

lemma split_sentence_end_nonempty: "split re_sentence_end s \<noteq> []"
  by (cases s) (auto simp: split_def re_sentence_end_def run_def backtrack.simps splitLoop_nonempty)

lemma splitStrLoop_nonempty: "splitStrLoop sep acc s \<noteq> []"
  by (induction sep acc s rule: splitStrLoop.induct) auto

lemma elemAt_splitStr: "sep \<noteq> [] \<Longrightarrow> \<exists>x. elemAt (splitStr sep s) 0 = Some x"
  by (simp add: elemAt_def splitStr_def splitStrLoop_nonempty)

text \<open>A pattern of one class takes the longest run, or fails.\<close>

lemma backtrack_nil: "backtrack ml [] p s lo k = (if k < lo then None else Some [k])"
  by (subst backtrack.simps) simp

lemma match_single:
  "matchAtoms ml [Cls c lo hi cap] p s = (if run c hi s < lo then None else Some [run c hi s])"
  by (simp add: backtrack_nil)

text \<open>The pieces of a split are made of characters of the text.\<close>

lemma splitLoop_pieces_subset:
  "x \<in> set (splitLoop r p acc s) \<Longrightarrow> set x \<subseteq> set acc \<union> set s"
proof (induction r p acc s arbitrary: x rule: splitLoop.induct)
  case (1 r p acc)
  then show ?case by simp
next
  case (2 r p acc c cs)
  show ?case
  proof (cases "matchAtoms (multiline r) (atoms r) p (c # cs)")
    case None
    with "2.prems" have "x \<in> set (splitLoop r (Some c) (acc @ [c]) cs)" by simp
    from "2.IH"(1)[OF None this] show ?thesis by auto
  next
    case (Some ls)
    show ?thesis
    proof (cases "sum_list ls = 0")
      case True
      show ?thesis
      proof (cases "acc = []")
        case e: True
        with "2.prems" Some True have "x \<in> set (splitLoop r (Some c) [c] cs)" by (simp add: Let_def)
        from "2.IH"(2)[OF Some refl True e this] show ?thesis by auto
      next
        case ne: False
        with "2.prems" Some True have "x = acc \<or> x \<in> set (splitLoop r (Some c) [c] cs)"
          by (simp add: Let_def)
        then show ?thesis
        proof
          assume "x = acc" then show ?thesis by auto
        next
          assume "x \<in> set (splitLoop r (Some c) [c] cs)"
          from "2.IH"(3)[OF Some refl True ne this] show ?thesis by auto
        qed
      qed
    next
      case False
      with "2.prems" Some
      have "x = acc \<or> x \<in> set (splitLoop r (prevAfter p (c # cs) (sum_list ls)) [] (drop (sum_list ls) (c # cs)))"
        by (simp add: Let_def del: sum_list_eq_0_iff)
      then show ?thesis
      proof
        assume "x = acc" then show ?thesis by auto
      next
        assume "x \<in> set (splitLoop r (prevAfter p (c # cs) (sum_list ls)) [] (drop (sum_list ls) (c # cs)))"
        from "2.IH"(4)[OF Some refl False this]
        have "set x \<subseteq> set (drop (sum_list ls) (c # cs))" by simp
        then show ?thesis using set_drop_subset[of "sum_list ls" "c # cs"] by blast
      qed
    qed
  qed
qed

lemma split_pieces_subset: "x \<in> set (split r s) \<Longrightarrow> set x \<subseteq> set s"
  using splitLoop_pieces_subset[of x r None "[]" s]
  by (auto simp: split_def split: if_splits option.splits)

text \<open>
  When every piece of a split at runs of a class is empty, the text is one run of the
  class: a text with no word is all white space, and has no sentence.
\<close>

lemma splitLoop_all_empty:
  assumes r: "atoms r = [Cls c lo None cap]" and lo: "0 < lo"
  shows "list_all (\<lambda>x. x = []) (splitLoop r p acc s) \<Longrightarrow> acc = [] \<and> list_all c s"
proof (induction "length s" arbitrary: p acc s rule: less_induct)
  case less
  show ?case
  proof (cases s)
    case Nil
    with less.prems show ?thesis by simp
  next
    case (Cons d ds)
    let ?n = "run c None s"
    show ?thesis
    proof (cases "?n < lo")
      case True
      then have "matchAtoms (multiline r) (atoms r) p (d # ds) = None"
        by (simp only: r match_single Cons if_True)
      with less.prems Cons have "list_all (\<lambda>x. x = []) (splitLoop r (Some d) (acc @ [d]) ds)"
        by simp
      from less.hyps[OF _ this] Cons show ?thesis by simp
    next
      case False
      then have m: "matchAtoms (multiline r) (atoms r) p (d # ds) = Some [?n]"
        by (simp only: r match_single Cons if_False)
      from False lo have pos: "?n \<noteq> 0" by simp
      from less.prems Cons m pos
      have a: "acc = []" and rest: "list_all (\<lambda>x. x = []) (splitLoop r (prevAfter p s ?n) [] (drop ?n s))"
        by (simp_all add: Let_def)
      from pos Cons have "length (drop ?n s) < length s" by simp
      from less.hyps[OF this rest] have d: "list_all c (drop ?n s)" by simp
      have "list_all c (take ?n s)"
        by (simp add: run_def list_all_iff) (metis in_set_takeD set_takeWhileD take_all_iff takeWhile_eq_take order_refl)
      with d have "list_all c (take ?n s @ drop ?n s)" by (simp only: list_all_append simp_thms)
      with a show ?thesis by simp
    qed
  qed
qed

lemma trim_all_space:
  assumes "list_all isWhiteSpace s"
  shows "trim s = []"
proof -
  from assms have "dropWhile isWhiteSpace s = []"
    by (simp add: list_all_iff)
  then show ?thesis
    unfolding trim_def by (simp only: rev.simps dropWhile.simps)
qed

lemma no_words_no_sentences:
  assumes "wordsOf t = []"
  shows "sentencesOf t = []"
proof -
  have all_empty: "list_all (\<lambda>x. x = []) (split re_whitespace t)"
    using assms by (simp add: wordsOf_def filter_empty_conv list_all_iff)
  have ws: "list_all isWhiteSpace t"
  proof (cases "t = []")
    case True
    then show ?thesis by simp
  next
    case False
    with all_empty have "list_all (\<lambda>x. x = []) (splitLoop re_whitespace None [] t)"
      by (simp add: split_def)
    then show ?thesis
      using splitLoop_all_empty[where r=re_whitespace and c=isWhiteSpace and lo=1 and cap=False]
      by (simp add: re_whitespace_def)
  qed
  have "trim x = []" if "x \<in> set (split re_sentence_end t)" for x
  proof -
    from split_pieces_subset[OF that] ws have "list_all isWhiteSpace x"
      unfolding list_all_iff by blast
    then show ?thesis by (rule trim_all_space)
  qed
  then show ?thesis by (simp add: sentencesOf_def filter_empty_conv)
qed

text \<open>A pattern that ends with a class does not match a text without that class.\<close>

lemma backtrack_last_class:
  assumes ih: "\<And>p s'. list_all (\<lambda>y. \<not> c y) s' \<Longrightarrow> matchAtoms ml (as @ [Cls c lo hi cap]) p s' = None"
    and x: "list_all (\<lambda>y. \<not> c y) s"
  shows "backtrack ml (as @ [Cls c lo hi cap]) p s lo' k = None"
proof (induction k)
  case 0
  from ih[OF x] show ?case by (subst backtrack.simps) (simp add: prevAfter_def)
next
  case (Suc k)
  from x have "list_all (\<lambda>y. \<not> c y) (drop (Suc k) s)"
    unfolding list_all_iff by (meson in_set_dropD)
  from ih[OF this] Suc show ?case by (subst backtrack.simps) simp
qed

lemma last_class_needed:
  "0 < lo \<Longrightarrow> list_all (\<lambda>y. \<not> c y) s \<Longrightarrow> matchAtoms ml (as @ [Cls c lo hi cap]) p s = None"
proof (induction as arbitrary: p s)
  case Nil
  then show ?case by (simp add: backtrack_nil run_none)
next
  case (Cons a as)
  have ih: "matchAtoms ml (as @ [Cls c lo hi cap]) q s' = None" if "list_all (\<lambda>y. \<not> c y) s'" for q s'
    using Cons.IH[OF Cons.prems(1) that] .
  show ?case
  proof (cases a)
    case (Cls c' lo' hi' cap')
    have "backtrack ml (as @ [Cls c lo hi cap]) p s lo' (run c' hi' s) = None"
      by (rule backtrack_last_class[OF ih Cons.prems(2)])
    with Cls show ?thesis by simp
  qed (simp_all add: ih[OF Cons.prems(2)])
qed

lemma search_last_class:
  assumes "atoms r = as @ [Cls c lo hi cap]" and "0 < lo" and "list_all (\<lambda>y. \<not> c y) s"
  shows "search r p s = None"
  using assms(3) by (induction s arbitrary: p) (simp_all add: assms(1) last_class_needed[OF assms(2)])

text \<open>A text without the first character of the separator is one piece.\<close>

lemma splitStrLoop_no_sep:
  "sep = x # rest \<Longrightarrow> x \<notin> set s \<Longrightarrow> splitStrLoop sep acc s = [acc @ s]"
  by (induction s arbitrary: acc) (auto simp: startsWith_def)

lemma trim_nonempty:
  assumes "\<not> isWhiteSpace c"
  shows "trim (c # s) \<noteq> []"
proof -
  from assms have a: "dropWhile isWhiteSpace (c # s) = c # s" by simp
  have "\<not> (\<forall>y \<in> set (rev (c # s)). isWhiteSpace y)" using assms by auto
  then have "dropWhile isWhiteSpace (rev (c # s)) \<noteq> []"
    by (simp only: dropWhile_eq_Nil_conv simp_thms)
  then show ?thesis unfolding trim_def a by (simp only: rev_is_Nil_conv simp_thms)
qed








section \<open>Ranges of the scores\<close>

lemma js_div_num: "0 < n \<Longrightarrow> js_div (num m) (num n) = Fin (of_nat m / of_nat n)"
  by (simp add: num_def)

lemma gradeFormula_Fin:
  "gradeFormula (Fin a) (Fin b) = Fin (39 / 100 * a + 118 / 10 * b - 1559 / 100)"
  by (simp add: gradeFormula_def js_sub_def)

lemma clamp_max_min: "Math_max (Fin lo) (Math_min (Fin hi) (Fin z)) = Fin (max lo (min hi z))"
  by (auto simp: max_def min_def)

lemma clamp_min_max: "Math_min (Fin hi) (Math_max (Fin lo) (Fin z)) = Fin (min hi (max lo z))"
  by (auto simp: max_def min_def)

lemma round_half_up_bounds:
  assumes "of_int lo \<le> x" and "x \<le> of_int hi"
  shows "lo \<le> round_half_up x \<and> round_half_up x \<le> hi"
proof -
  have "of_int lo \<le> x + 1 / 2" using assms(1) by simp
  then have "lo \<le> \<lfloor>x + 1 / 2\<rfloor>" by (simp only: le_floor_iff)
  moreover have "x + 1 / 2 < of_int (hi + 1)" using assms(2) by simp
  then have "\<lfloor>x + 1 / 2\<rfloor> < hi + 1" by (simp only: floor_less_iff)
  ultimately show ?thesis by (simp add: round_half_up_def)
qed

lemma isIntBetween_round:
  "of_int lo \<le> x \<Longrightarrow> x \<le> of_int hi \<Longrightarrow> isIntBetween lo hi (Math_round (Fin x))"
  using round_half_up_bounds[of lo x hi] by (simp add: isIntBetween_def)

lemma isIntBetween_max_min:
  "lo \<le> hi \<Longrightarrow> isIntBetween lo hi (Fin (max (of_int lo) (min (of_int hi) (of_int n))))"
  by (simp add: isIntBetween_def max_def min_def)

lemma isIntBetween_min_max:
  "lo \<le> hi \<Longrightarrow> isIntBetween lo hi (Fin (min (of_int hi) (max (of_int lo) (of_int n))))"
  by (simp add: isIntBetween_def max_def min_def)

text \<open>The ease score of src/App.tsx is an integer from 0 to 100, for every text.\<close>

lemma calculateReadabilityScore_range: "isIntBetween 0 100 (calculateReadabilityScore t)"
proof (cases "length (sentencesOf t) = 0 \<or> length (wordsOf t) = 0")
  case True
  then show ?thesis by (auto simp: calculateReadabilityScore_def Let_def isIntBetween_def)
next
  case False
  then have pos: "0 < length (sentencesOf t)" "0 < length (wordsOf t)" by simp_all
  define z where "z = 100 -
     (39 / 100 * (of_nat (length (wordsOf t)) / of_nat (length (sentencesOf t)))
       + 118 / 10 * (of_nat (sumSyllables (wordsOf t)) / of_nat (length (wordsOf t)))
       - 1559 / 100) * (8 :: rat)"
  have "calculateReadabilityScore t = Math_round (Fin (max 0 (min 100 z)))"
    using False pos
    by (simp add: calculateReadabilityScore_def Let_def js_div_num gradeFormula_Fin js_sub_def
        clamp_max_min z_def)
  moreover have "isIntBetween 0 100 (Math_round (Fin (max 0 (min 100 z))))"
    by (rule isIntBetween_round) (simp_all add: max_def min_def)
  ultimately show ?thesis by simp
qed

text \<open>So is the ease score of the second file: its two divisors are lengths of splits.\<close>

lemma calculateReadabilityScore_part0_range:
  "isIntBetween 0 100 (calculateReadabilityScore_part0 t)"
proof -
  have pos: "0 < length (split re_sentence_end t)" "0 < length (split re_whitespace t)"
    using split_sentence_end_nonempty[of t] split_whitespace_nonempty[of t] by simp_all
  define z where "z = 206835 / 1000
       - 1015 / 1000 * (of_nat (length (split re_whitespace t)) / of_nat (length (split re_sentence_end t)))
       - 846 / 10 * (of_nat (countSyllables_part0 t) / of_nat (length (split re_whitespace t)) :: rat)"
  have "calculateReadabilityScore_part0 t =
          Fin (min (of_int 100) (max (of_int 0) (of_int (round_half_up z))))"
    using pos
    by (simp add: calculateReadabilityScore_part0_def Let_def js_div_num js_sub_def
        clamp_min_max z_def)
  moreover have "isIntBetween 0 100 (Fin (min (of_int 100) (max (of_int 0) (of_int (round_half_up z)))))"
    by (rule isIntBetween_min_max) simp
  ultimately show ?thesis by simp
qed

text \<open>The grade is an integer from 1 to 12 when the text has a sentence.\<close>

lemma grade_range:
  assumes "sentencesOf t \<noteq> []"
  shows "isIntBetween 1 12 (grade (analyzeReadability t))"
proof -
  from assms no_words_no_sentences[of t] have "wordsOf t \<noteq> []" by blast
  with assms have pos: "0 < length (sentencesOf t)" "0 < length (wordsOf t)" by simp_all
  define z where "z = 39 / 100 * (of_nat (length (wordsOf t)) / of_nat (length (sentencesOf t)))
       + 118 / 10 * (of_nat (sumSyllables (wordsOf t)) / of_nat (length (wordsOf t)))
       - (1559 / 100 :: rat)"
  have "grade (analyzeReadability t) =
          Fin (max (of_int 1) (min (of_int 12) (of_int (round_half_up z))))"
    using pos
    by (simp add: analyzeReadability_def Let_def js_div_num gradeFormula_Fin clamp_max_min z_def)
  moreover have "isIntBetween 1 12 (Fin (max (of_int 1) (min (of_int 12) (of_int (round_half_up z)))))"
    by (rule isIntBetween_max_min) simp
  ultimately show ?thesis by simp
qed

lemma grade_part0_range:
  assumes "sentencesOf t \<noteq> []"
  shows "isIntBetween 1 12 (grade (analyzeReadability_part0 t))"
proof -
  from assms no_words_no_sentences[of t] have "wordsOf t \<noteq> []" by blast
  with assms have pos: "0 < length (sentencesOf t)" "0 < length (wordsOf t)" by simp_all
  define z where "z = 39 / 100 * (of_nat (length (wordsOf t)) / of_nat (length (sentencesOf t)))
       + 118 / 10 * (of_nat (countSyllables_part0 t) / of_nat (length (wordsOf t)))
       - (1559 / 100 :: rat)"
  have "grade (analyzeReadability_part0 t) =
          Fin (max (of_int 1) (min (of_int 12) (of_int (round_half_up z))))"
    using pos
    by (simp add: analyzeReadability_part0_def Let_def js_div_num gradeFormula_Fin clamp_max_min z_def)
  moreover have "isIntBetween 1 12 (Fin (max (of_int 1) (min (of_int 12) (of_int (round_half_up z)))))"
    by (rule isIntBetween_max_min) simp
  ultimately show ?thesis by simp
qed

text \<open>Every check scores from 0 to 1, so the overall score is from 0 to 100.\<close>

lemma check_scores:
  "0 \<le> score (calculateKeywordDensity t) \<and> score (calculateKeywordDensity t) \<le> 1"
  "checkTitleLength t = Inr a \<Longrightarrow> 0 \<le> score a \<and> score a \<le> 1"
  "checkMetaDescription t = Inr b \<Longrightarrow> 0 \<le> score b \<and> score b \<le> 1"
  "0 \<le> score (checkHeadings t) \<and> score (checkHeadings t) \<le> 1"
  "0 \<le> score (checkLinks t) \<and> score (checkLinks t) \<le> 1"
  "0 \<le> score (checkImageAlt t) \<and> score (checkImageAlt t) \<le> 1"
  "0 \<le> score (checkContentLength t) \<and> score (checkContentLength t) \<le> 1"
  "0 \<le> score (checkParagraphLength t) \<and> score (checkParagraphLength t) \<le> 1"
  by (auto simp: calculateKeywordDensity_def checkTitleLength_def checkMetaDescription_def
      checkHeadings_def checkLinks_def checkImageAlt_def checkContentLength_def
      checkParagraphLength_def Let_def split: option.splits if_splits)

lemma overallScore_range:
  assumes "seoChecks t = Inr cs"
  shows "0 \<le> overallScore cs \<and> overallScore cs \<le> 100"
proof -
  from assms obtain a b where a: "checkTitleLength t = Inr a" and b: "checkMetaDescription t = Inr b"
    and cs: "cs = [calculateKeywordDensity t, a, b, checkHeadings t, checkLinks t, checkImageAlt t,
                   checkContentLength t, checkParagraphLength t]"
    by (auto simp: seoChecks_def split: sum.splits)
  define x where "x = foldl (\<lambda>acc val. acc + score val) 0 cs / 8 * 100"
  have "0 \<le> x \<and> x \<le> 100"
    using check_scores(1)[of t] check_scores(2)[OF a] check_scores(3)[OF b] check_scores(4)[of t]
      check_scores(5)[of t] check_scores(6)[of t] check_scores(7)[of t] check_scores(8)[of t]
    unfolding x_def cs by simp
  then show ?thesis
    using round_half_up_bounds[of 0 x 100] by (simp add: overallScore_def x_def)
qed

text \<open>
  Claim C1. Claimed: for every text the overall score is an integer from 0 to 100, the ease
  score an integer from 0 to 100 and the grade an integer from 1 to 12. The first two
  hold (\<open>overallScore_range\<close>, \<open>calculateReadabilityScore_range\<close>,
  \<open>calculateReadabilityScore_part0_range\<close>), and the grade is in its range when the
  text has a sentence (\<open>grade_range\<close>, \<open>grade_part0_range\<close>). For the empty text, and
  for a text of white space, the grade is computed from 0 / 0: it is NaN, which the
  clamp \<^verbatim>\<open>Math.max(1, Math.min(12, grade))\<close> passes through.
\<close>

theorem grade_of_empty_text_not_in_range:
  "grade (analyzeReadability []) = NaN
   \<and> grade (analyzeReadability_part0 []) = NaN
   \<and> grade (analyzeReadability '' \<newline> '') = NaN
   \<and> \<not> isIntBetween 1 12 (grade (analyzeReadability []))
   \<and> \<not> isIntBetween 1 12 (grade (analyzeReadability_part0 []))"
  by code_simp

text \<open>Without a sentence or without a word, the ease score is 100 and no sentence is listed.\<close>

lemma ease_score_without_tokens:
  "sentencesOf t = [] \<or> wordsOf t = [] \<Longrightarrow> calculateReadabilityScore t = Fin 100"
  by (auto simp: calculateReadabilityScore_def Let_def)

lemma no_lists_without_tokens:
  assumes "sentencesOf t = [] \<or> wordsOf t = []"
  shows "hardSentences (analyzeReadability t) = [] \<and> veryHardSentences (analyzeReadability t) = []"
proof -
  from assms no_words_no_sentences[of t] have "sentencesOf t = []" by blast
  then show ?thesis by (simp add: analyzeReadability_def Let_def)
qed

text \<open>
  Claim C2. Claimed: for the empty text, and any text with no sentence or no word, the
  readability analyzer returns the ease score 100, the grade 1 and two empty lists of
  sentences. The ease score and the lists are as claimed (\<open>ease_score_without_tokens\<close>,
  \<open>no_lists_without_tokens\<close>); the grade is not. On the empty text it is NaN, in both
  files. On a text of full stops only, which has a word and no sentence, src/App.tsx
  divides by zero and the grade is clamped from Infinity to 12.
\<close>

theorem readability_of_empty_text:
  "analyzeReadability [] =
     \<lparr>rscore = Fin 100, hardSentences = [], veryHardSentences = [], grade = NaN\<rparr>
   \<and> analyzeReadability_part0 [] =
     \<lparr>rscore = Fin 100, hardSentences = [], veryHardSentences = [], grade = NaN\<rparr>
   \<and> analyzeReadability ''...'' =
     \<lparr>rscore = Fin 100, hardSentences = [], veryHardSentences = [], grade = Fin 12\<rparr>"
  by code_simp

section \<open>No check throws\<close>

lemma title_group: "matchFirst re_title t = Some m \<Longrightarrow> \<exists>title. elemAt m 1 = Some title"
proof -
  assume a: "matchFirst re_title t = Some m"
  then obtain i ls where s: "search re_title None t = Some (i, ls)"
    and m: "m = take (sum_list ls) (drop i t) # groupsOf (atoms re_title) ls (drop i t)"
    by (auto simp: matchFirst_def split: option.splits)
  from search_length[OF s] have "length ls = 5" by (simp add: re_title_def)
  then obtain a b c d e where "ls = [a, b, c, d, e]"
    by (auto simp: length_Suc_conv eval_nat_numeral)
  with m show ?thesis by (simp add: re_title_def elemAt_def)
qed

lemma checkTitleLength_total: "\<exists>r. checkTitleLength t = Inr r"
  using title_group[of t]
  by (auto simp: checkTitleLength_def Let_def split: option.splits)

lemma checkMetaDescription_total: "\<exists>r. checkMetaDescription t = Inr r"
  using elemAt_splitStr[of "[CHR 0x0A, CHR 0x0A]" t]
  by (auto simp: checkMetaDescription_def Let_def split: option.splits)

lemma seoChecks_total: "\<exists>cs. seoChecks t = Inr cs"
  using checkTitleLength_total[of t] checkMetaDescription_total[of t]
  by (auto simp: seoChecks_def)

text \<open>
  Claim C3. No check, nor the aggregator, nor the readability analyzer throws, for any
  text. Two checks read a value that could be undefined: \<open>checkTitleLength\<close> the first
  group of its match and \<open>checkMetaDescription\<close> the first piece of its split; both
  always find it, and so the aggregator returns a state. The other six checks and the
  two readability analyzers have no operation that can throw and are total functions.
\<close>

theorem no_check_throws:
  "(\<exists>r. checkTitleLength t = Inr r)
   \<and> (\<exists>r. checkMetaDescription t = Inr r)
   \<and> (\<exists>cs. seoChecks t = Inr cs \<and> length cs = 8)
   \<and> (\<exists>st'. analyzeSEO t st = Inr st')"
proof -
  obtain cs where cs: "seoChecks t = Inr cs" using seoChecks_total by blast
  then have "length cs = 8" by (auto simp: seoChecks_def split: sum.splits)
  with cs show ?thesis
    using checkTitleLength_total[of t] checkMetaDescription_total[of t]
    by (simp add: analyzeSEO_def Let_def)
qed

theorem no_check_throws_witness:
  "(\<exists>r. checkTitleLength [] = Inr r) \<and> (\<exists>r. checkMetaDescription [] = Inr r)
   \<and> (\<exists>r. checkTitleLength ''   '' = Inr r) \<and> (\<exists>r. checkMetaDescription ''   '' = Inr r)
   \<and> (\<exists>r. checkTitleLength ''[text](url ![img'' = Inr r)
   \<and> (\<exists>st'. analyzeSEO ''[text](url ![img'' initialState = Inr st')"
  using no_check_throws[of "[]"] no_check_throws[of "''   ''"]
    no_check_throws[of "''[text](url ![img''" initialState]
  by blast

section \<open>Links and images\<close>

lemma checkLinks_no_links:
  "linksOf t = [] \<Longrightarrow> checkLinks t = \<lparr>score = 1 / 2, suggestions =
     [''No links found. Add relevant internal or external links to enhance content value.'']\<rparr>"
  by (simp add: checkLinks_def)

lemma checkLinks_one_suggestion: "length (suggestions (checkLinks t)) \<le> 1"
  by (simp add: checkLinks_def Let_def)

text \<open>The link pattern does not match at a pair of brackets with nothing between them.\<close>

lemma empty_anchor_no_match:
  "matchAtoms False (atoms re_link) p (CHR ''['' # CHR '']'' # s) = None"
proof -
  have "run (\<lambda>c. c \<noteq> CHR '']'') None (CHR '']'' # s) = 0" by (simp add: run_def)
  then have "matchAtoms False
     [captured (\<lambda>c. c \<noteq> CHR '']'') 1, lit CHR '']'', lit CHR ''('',
      captured (\<lambda>c. c \<noteq> CHR '')'') 1, lit CHR '')''] q (CHR '']'' # s) = None" for q
    by (simp add: backtrack_zero)
  then have "matchAtoms False
     [lit CHR ''['', captured (\<lambda>c. c \<noteq> CHR '']'') 1, lit CHR '']'', lit CHR ''('',
      captured (\<lambda>c. c \<noteq> CHR '')'') 1, lit CHR '')''] p (CHR ''['' # CHR '']'' # s) = None"
    by (subst match_lit) (simp only: option.map)
  then show ?thesis by (simp only: re_link_def regex.simps)
qed

text \<open>
  Claim C4. Claimed: no link gives the score 0.5 with the advice to add links, a link with
  an empty anchor gives 0.7 with the advice on empty anchors, and at most one advice is
  given. The first and the last hold (\<open>checkLinks_no_links\<close>,
  \<open>checkLinks_one_suggestion\<close>). The pattern of \<open>checkLinks\<close> asks for one character or
  more between the brackets (\<open>empty_anchor_no_match\<close>), so a link with an empty anchor is
  never among the matches: beside another link it is not seen, and alone it counts as
  no link.
\<close>

theorem empty_anchor_not_reported:
  "linksOf ''[a](b) [](c)'' = [''[a](b)'']
   \<and> checkLinks ''[a](b) [](c)'' = \<lparr>score = 1, suggestions = []\<rparr>
   \<and> linksOf ''[](c)'' = []
   \<and> checkLinks ''[](c)'' = \<lparr>score = 1 / 2, suggestions =
        [''No links found. Add relevant internal or external links to enhance content value.'']\<rparr>"
  by code_simp

text \<open>The link pattern and the image pattern on an image with a text between the brackets.\<close>

lemma link_matches_image:
  assumes "alt \<noteq> []" and "CHR '']'' \<notin> set alt" and "url \<noteq> []" and "CHR '')'' \<notin> set url"
  shows "matchAtoms False (atoms re_link) p
           (CHR ''['' # alt @ CHR '']'' # CHR ''('' # url @ CHR '')'' # post)
           = Some [1, length alt, 1, 1, length url, 1]"
proof -
  have a: "list_all (\<lambda>c. c \<noteq> CHR '']'') alt" using assms(2) by (auto simp: list_all_iff)
  have u: "list_all (\<lambda>c. c \<noteq> CHR '')'') url" using assms(4) by (auto simp: list_all_iff)
  have m6: "matchAtoms False [lit CHR '')''] q (CHR '')'' # post) = Some [1]" for q
    by (subst match_lit) simp
  have m5: "matchAtoms False [captured (\<lambda>c. c \<noteq> CHR '')'') 1, lit CHR '')''] q
              (url @ CHR '')'' # post) = Some [length url, 1]" for q
    by (rule match_run[OF u assms(3) _ m6]) (use assms(3) in \<open>simp_all add: Suc_le_eq\<close>)
  have m3: "matchAtoms False
              [lit CHR '']'', lit CHR ''('', captured (\<lambda>c. c \<noteq> CHR '')'') 1, lit CHR '')''] q
              (CHR '']'' # CHR ''('' # url @ CHR '')'' # post) = Some [1, 1, length url, 1]" for q
    by (subst match_lit, subst match_lit) (simp only: m5 option.map)
  have "matchAtoms False
          [captured (\<lambda>c. c \<noteq> CHR '']'') 1, lit CHR '']'', lit CHR ''('',
           captured (\<lambda>c. c \<noteq> CHR '')'') 1, lit CHR '')''] q
          (alt @ CHR '']'' # CHR ''('' # url @ CHR '')'' # post)
        = Some [length alt, 1, 1, length url, 1]" for q
    by (rule match_run[OF a assms(1) _ m3]) (use assms(1) in \<open>simp_all add: Suc_le_eq\<close>)
  then have "matchAtoms False
          [lit CHR ''['', captured (\<lambda>c. c \<noteq> CHR '']'') 1, lit CHR '']'', lit CHR ''('',
           captured (\<lambda>c. c \<noteq> CHR '')'') 1, lit CHR '')''] p
          (CHR ''['' # alt @ CHR '']'' # CHR ''('' # url @ CHR '')'' # post)
        = Some [1, length alt, 1, 1, length url, 1]"
    by (subst match_lit) (simp only: option.map)
  then show ?thesis
    by (simp only: re_link_def regex.simps)
qed

lemma image_matches:
  assumes "alt \<noteq> []" and "CHR '']'' \<notin> set alt" and "url \<noteq> []" and "CHR '')'' \<notin> set url"
  shows "matchAtoms False (atoms re_image) p
           (CHR ''!'' # CHR ''['' # alt @ CHR '']'' # CHR ''('' # url @ CHR '')'' # post)
           = Some [1, 1, length alt, 1, 1, length url, 1]"
proof -
  have a: "list_all (\<lambda>c. c \<noteq> CHR '']'') alt" using assms(2) by (auto simp: list_all_iff)
  have u: "list_all (\<lambda>c. c \<noteq> CHR '')'') url" using assms(4) by (auto simp: list_all_iff)
  have m6: "matchAtoms False [lit CHR '')''] q (CHR '')'' # post) = Some [1]" for q
    by (subst match_lit) simp
  have m5: "matchAtoms False [captured (\<lambda>c. c \<noteq> CHR '')'') 1, lit CHR '')''] q
              (url @ CHR '')'' # post) = Some [length url, 1]" for q
    by (rule match_run[OF u assms(3) _ m6]) (use assms(3) in \<open>simp_all add: Suc_le_eq\<close>)
  have m3: "matchAtoms False
              [lit CHR '']'', lit CHR ''('', captured (\<lambda>c. c \<noteq> CHR '')'') 1, lit CHR '')''] q
              (CHR '']'' # CHR ''('' # url @ CHR '')'' # post) = Some [1, 1, length url, 1]" for q
    by (subst match_lit, subst match_lit) (simp only: m5 option.map)
  have "matchAtoms False
          [captured (\<lambda>c. c \<noteq> CHR '']'') 0, lit CHR '']'', lit CHR ''('',
           captured (\<lambda>c. c \<noteq> CHR '')'') 1, lit CHR '')''] q
          (alt @ CHR '']'' # CHR ''('' # url @ CHR '')'' # post)
        = Some [length alt, 1, 1, length url, 1]" for q
    by (rule match_run[OF a assms(1) _ m3]) simp_all
  then have "matchAtoms False
          [lit CHR ''!'', lit CHR ''['', captured (\<lambda>c. c \<noteq> CHR '']'') 0, lit CHR '']'',
           lit CHR ''('', captured (\<lambda>c. c \<noteq> CHR '')'') 1, lit CHR '')''] p
          (CHR ''!'' # CHR ''['' # alt @ CHR '']'' # CHR ''('' # url @ CHR '')'' # post)
        = Some [1, 1, length alt, 1, 1, length url, 1]"
    by (subst match_lit, subst match_lit) (simp only: option.map)
  then show ?thesis
    by (simp only: re_image_def regex.simps)
qed

text \<open>
  In a text that holds an image \<^verbatim>\<open>![alt](url)\<close> with a text between the brackets (no
  \<^verbatim>\<open>]\<close> in it) and an address (no \<^verbatim>\<open>)\<close> in it), the image pattern matches the image
  and the link pattern matches it from its bracket on: the array of links is not empty,
  and \<open>checkLinks\<close> goes on to its test of the anchors.
\<close>

lemma images_satisfy_link_check:
  assumes "alt \<noteq> []" and "CHR '']'' \<notin> set alt" and "url \<noteq> []" and "CHR '')'' \<notin> set url"
  shows "matchAtoms False (atoms re_image) q (''!['' @ alt @ '']('' @ url @ '')'' @ post)
           = Some [1, 1, length alt, 1, 1, length url, 1]
       \<and> matchAtoms False (atoms re_link) (Some CHR ''!'') (''['' @ alt @ '']('' @ url @ '')'' @ post)
           = Some [1, length alt, 1, 1, length url, 1]
       \<and> linksOf (pre @ ''!['' @ alt @ '']('' @ url @ '')'' @ post) \<noteq> []
       \<and> checkLinks (pre @ ''!['' @ alt @ '']('' @ url @ '')'' @ post) =
           (if list_ex (\<lambda>link. includesStr link ''[]'')
                 (linksOf (pre @ ''!['' @ alt @ '']('' @ url @ '')'' @ post))
            then \<lparr>score = 7 / 10, suggestions =
              [''Some links have empty anchor text. Add descriptive text to all links.'']\<rparr>
            else \<lparr>score = 1, suggestions = []\<rparr>)"
proof -
  let ?tail = "CHR ''['' # alt @ CHR '']'' # CHR ''('' # url @ CHR '')'' # post"
  let ?t = "pre @ CHR ''!'' # ?tail"
  have m: "matchAtoms False (atoms re_link) (Some CHR ''!'') ?tail
             = Some [1, length alt, 1, 1, length url, 1]"
    by (rule link_matches_image[OF assms])
  have im: "matchAtoms False (atoms re_image) q (CHR ''!'' # ?tail)
             = Some [1, 1, length alt, 1, 1, length url, 1]"
    by (rule image_matches[OF assms])
  have pa: "prevAfter None ?t (Suc (length pre)) = Some CHR ''!''"
    by (simp add: prevAfter_def nth_append)
  have dr: "drop (Suc (length pre)) ?t = ?tail" by simp
  have ml: "multiline re_link = False" by (simp add: re_link_def)
  have "matchAtoms (multiline re_link) (atoms re_link) (prevAfter None ?t (Suc (length pre)))
          (drop (Suc (length pre)) ?t) = Some [1, length alt, 1, 1, length url, 1]"
    by (simp only: pa dr ml m)
  then have "search re_link None ?t \<noteq> None"
    by (rule search_finds) simp
  then have "matchAll re_link None ?t \<noteq> []" by (rule matchAll_nonempty)
  then have l: "linksOf ?t \<noteq> []"
    by (auto simp: linksOf_def matchGlobal_def orEmpty_def split: list.splits)
  then have c: "checkLinks ?t =
           (if list_ex (\<lambda>link. includesStr link ''[]'') (linksOf ?t)
            then \<lparr>score = 7 / 10, suggestions =
              [''Some links have empty anchor text. Add descriptive text to all links.'']\<rparr>
            else \<lparr>score = 1, suggestions = []\<rparr>)"
    by (simp add: checkLinks_def Let_def)
  have t: "pre @ ''!['' @ alt @ '']('' @ url @ '')'' @ post = ?t" by simp
  have t2: "''['' @ alt @ '']('' @ url @ '')'' @ post = ?tail" by simp
  have t3: "''!['' @ alt @ '']('' @ url @ '')'' @ post = CHR ''!'' # ?tail" by simp
  show ?thesis
    unfolding t t2 t3 using im m l c by (intro conjI)
qed

text \<open>
  Claim C10. Claimed: in a text whose only constructs of brackets and parentheses are
  images with an alternative text, the link pattern matches every image from its
  bracket on, and \<open>checkLinks\<close> returns the score 1 with no advice. The pattern does
  match the image, and an image with a plain address scores 1. The test for an empty
  anchor, \<^verbatim>\<open>link.includes('[]')\<close>, looks at the whole match and not at the anchor: on an
  image with the anchor \<^verbatim>\<open>chart\<close> and the two characters \<^verbatim>\<open>[]\<close> in its address the check
  returns 0.7 and reports an empty anchor text.
\<close>

theorem image_with_brackets_in_address:
  "imagesOf ''![chart](img?ids[]=1)'' = [''![chart](img?ids[]=1)'']
   \<and> matchFirst re_image ''![chart](img?ids[]=1)''
       = Some [''![chart](img?ids[]=1)'', ''chart'', ''img?ids[]=1'']
   \<and> linksOf ''![chart](img?ids[]=1)'' = [''[chart](img?ids[]=1)'']
   \<and> checkLinks ''![chart](img?ids[]=1)'' = \<lparr>score = 7 / 10, suggestions =
        [''Some links have empty anchor text. Add descriptive text to all links.'']\<rparr>
   \<and> checkLinks ''![chart](img?ids[]=1)'' \<noteq> \<lparr>score = 1, suggestions = []\<rparr>
   \<and> matchFirst re_link ''![chart](img?ids[]=1)''
       = Some [''[chart](img?ids[]=1)'', ''chart'', ''img?ids[]=1'']
   \<and> linksOf ''![chart](img.png)'' = [''[chart](img.png)'']
   \<and> checkLinks ''![chart](img.png)'' = \<lparr>score = 1, suggestions = []\<rparr>"
  by code_simp

section \<open>The first paragraph and the headings\<close>

text \<open>
  A text that is one heading line, with no line feed, keeps its heading and scores
  above 0.
\<close>

lemma heading_alone_not_stripped:
  assumes "CHR 0x0A \<notin> set h"
  shows "\<exists>r. checkMetaDescription (CHR ''#'' # h) = Inr r \<and> 0 < score r"
proof -
  let ?t = "CHR ''#'' # h"
  from assms have nl: "CHR 0x0A \<notin> set ?t" by simp
  then have nl': "list_all (\<lambda>y. \<not> y = CHR 0x0A) ?t" unfolding list_all_iff by blast
  have sp: "splitStr [CHR 0x0A, CHR 0x0A] ?t = [?t]"
    using splitStrLoop_no_sep[OF refl nl, of "[CHR 0x0A]" "[]"] by (simp add: splitStr_def)
  have "search re_heading_line None ?t = None"
    by (rule search_last_class[where as="[Bol, lit CHR ''#'', zeroOrMore dot]"
          and c="\<lambda>y. y = CHR 0x0A" and lo=1 and hi="Some 1" and cap=False, OF _ _ nl'])
      (simp_all add: re_heading_line_def)
  then have rp: "replaceFirst re_heading_line [] ?t = ?t" by (simp add: replaceFirst_def)
  have tr: "trim ?t \<noteq> []" by (rule trim_nonempty) (simp add: isWhiteSpace_def)
  show ?thesis
    using tr by (simp add: checkMetaDescription_def sp elemAt_def rp Let_def)
qed

text \<open>
  Claim C5. Claimed: \<open>checkMetaDescription\<close> takes the first paragraph, strips a leading
  heading line, trims, and scores 0, 0.5, 0.7 or 1 by the length of the rest; so that a
  first paragraph that is only a heading line scores 0 with the advice to add an
  introduction. The pattern that strips the heading ends with a line feed, and a first
  paragraph that is cut at a blank line does not end with one: the heading stays
  (\<open>heading_alone_not_stripped\<close>), and it is scored as an introduction that is too
  short.
\<close>

theorem heading_only_paragraph_not_stripped:
  "checkMetaDescription ''# Title'' = Inr \<lparr>score = 1 / 2, suggestions =
     [''Introduction is too short. Aim for 150-160 characters for better search visibility.'']\<rparr>
   \<and> splitStr [CHR 0x0A, CHR 0x0A] ''# Title\<newline>\<newline>Body of the text.''
       = [''# Title'', ''Body of the text.'']
   \<and> replaceFirst re_heading_line [] ''# Title'' = ''# Title''
   \<and> checkMetaDescription ''# Title\<newline>\<newline>Body of the text.'' = Inr \<lparr>score = 1 / 2, suggestions =
     [''Introduction is too short. Aim for 150-160 characters for better search visibility.'']\<rparr>"
  by code_simp

text \<open>
  Over the headings that the check has collected: without a subheading the factor 0.7
  multiplies the score of the count of main headings, 0.5 for more than one and 0.3
  for none, and the advice on subheadings follows the advice on main headings.
\<close>

lemma headings_compound:
  "(h1Count (headingsOf t) = 2 \<and> \<not> hasSubheadings (headingsOf t) \<longrightarrow>
      checkHeadings t = \<lparr>score = 1 / 2 * (7 / 10), suggestions =
        [''Multiple H1 headings found. Use only one main heading.'',
         ''Add subheadings (H2, H3) to better structure your content.'']\<rparr>
      \<and> score (checkHeadings t) = 35 / 100)
   \<and> (1 < h1Count (headingsOf t) \<and> \<not> hasSubheadings (headingsOf t) \<longrightarrow>
        score (checkHeadings t) = 1 / 2 * (7 / 10) \<and> length (suggestions (checkHeadings t)) = 2)
   \<and> (headingsOf t \<noteq> [] \<and> h1Count (headingsOf t) = 0 \<and> \<not> hasSubheadings (headingsOf t) \<longrightarrow>
        score (checkHeadings t) = 3 / 10 * (7 / 10) \<and> length (suggestions (checkHeadings t)) = 2)"
proof -
  have ne: "headingsOf t \<noteq> []" if "0 < h1Count (headingsOf t)"
    using that by (auto simp: h1Count_def)
  show ?thesis
    using ne by (auto simp: checkHeadings_def Let_def)
qed

text \<open>
  Claim C6. Claimed: every text with two lines that start with \<^verbatim>\<open># \<close> and no line that
  starts with \<^verbatim>\<open>## \<close> scores 0.5 * 0.7 = 0.35, with the advice on several main headings
  followed by the advice on subheadings. The check collects its headings with
  \<^verbatim>\<open>/^#{1,6}\s+.+$/gm\<close>, and the white space after the signs may be a line feed: a line
  of signs alone is collected together with the line after it, as one heading that
  starts with the sign and the line feed. The text of the three lines \<^verbatim>\<open>#\<close>, \<^verbatim>\<open># A\<close>,
  \<^verbatim>\<open># B\<close> has two lines that start with \<^verbatim>\<open># \<close> and none that starts with \<^verbatim>\<open>## \<close>; the check
  counts one main heading in it and returns 0.7 with the advice on subheadings alone.
  The text of the two lines \<^verbatim>\<open># A\<close>, \<^verbatim>\<open># B\<close> gets the claimed result, also when a third
  line holds \<^verbatim>\<open>## \<close> after its start.
\<close>

theorem heading_after_line_of_signs_not_counted:
  "splitStr [CHR 0x0A] ''#\<newline># A\<newline># B'' = [''#'', ''# A'', ''# B'']
   \<and> filter (\<lambda>l. startsWith l ''# '') (splitStr [CHR 0x0A] ''#\<newline># A\<newline># B'')
       = [''# A'', ''# B'']
   \<and> filter (\<lambda>l. startsWith l ''## '') (splitStr [CHR 0x0A] ''#\<newline># A\<newline># B'') = []
   \<and> headingsOf ''#\<newline># A\<newline># B'' = [''#\<newline># A'', ''# B'']
   \<and> checkHeadings ''#\<newline># A\<newline># B'' = \<lparr>score = 7 / 10, suggestions =
        [''Add subheadings (H2, H3) to better structure your content.'']\<rparr>
   \<and> score (checkHeadings ''#\<newline># A\<newline># B'') \<noteq> 35 / 100
   \<and> headingsOf ''# A\<newline># B'' = [''# A'', ''# B'']
   \<and> checkHeadings ''# A\<newline># B'' = \<lparr>score = 35 / 100, suggestions =
        [''Multiple H1 headings found. Use only one main heading.'',
         ''Add subheadings (H2, H3) to better structure your content.'']\<rparr>
   \<and> headingsOf ''# A\<newline># B\<newline>foo ## C'' = [''# A'', ''# B'']
   \<and> checkHeadings ''# A\<newline># B\<newline>foo ## C'' = \<lparr>score = 35 / 100, suggestions =
        [''Multiple H1 headings found. Use only one main heading.'',
         ''Add subheadings (H2, H3) to better structure your content.'']\<rparr>"
  by code_simp

section \<open>The syllable counts\<close>

text \<open>
  Both counts read the text through \<^verbatim>\<open>toLowerCase\<close> and the removal of all characters
  but the letters a to z. A lower-cased text without the letters a, e, i, o, u, y
  leaves no vowel to any later step. The statements of this section are over the
  lower-cased text, and their proofs use nothing of what \<^verbatim>\<open>toLowerCase\<close> does to a
  character.
\<close>

lemma stripped_no_vowel:
  assumes "list_all (\<lambda>x. x \<notin> set ''aeiouy'') (toLowerCase s)"
  shows "list_all (\<lambda>x. x \<notin> set ''aeiouy'') (stripped s)"
  unfolding stripped_def replaceGlobal_def
  by (rule replaceLoop_keeps[OF assms]) simp

lemma countSyllables_no_vowel:
  assumes "list_all (\<lambda>x. x \<notin> set ''aeiouy'') (toLowerCase s)"
  shows "countSyllables s = 0"
proof -
  let ?V = "\<lambda>x. x \<notin> set ''aeiouy''"
  let ?s2 = "replaceGlobal re_trailing_e [] (stripped s)"
  have s2: "list_all ?V ?s2"
    unfolding replaceGlobal_def by (rule replaceLoop_keeps[OF stripped_no_vowel[OF assms]]) simp
  then have "list_all (\<lambda>x. \<not> x \<in> set ''aeiou'') ?s2"
    unfolding list_all_iff by auto
  then have s3: "replaceGlobal re_vowel_run ''a'' ?s2 = ?s2"
    unfolding replaceGlobal_def
    by (rule replaceLoop_class_none[where lo=2 and hi=None and cap=False and as="[]"])
      (simp_all add: re_vowel_run_def)
  from s2 have "list_all (\<lambda>x. \<not> x \<in> set ''aeiouy'') ?s2" by simp
  then have "matchAll re_vowel None ?s2 = []"
    by (rule matchAll_class_none[where lo=1 and hi="Some 1" and cap=False and as="[]"])
      (simp_all add: re_vowel_def)
  then have "matchGlobal re_vowel ?s2 = None" by (simp add: matchGlobal_def)
  with s3 show ?thesis by (simp add: countSyllables_def stripped_def)
qed

lemma countSyllables_part0_no_vowel:
  assumes "list_all (\<lambda>x. x \<notin> set ''aeiouy'') (toLowerCase s)"
  shows "countSyllables_part0 s = 0"
proof -
  let ?s2 = "replaceGlobal re_non_vowels '' '' (stripped s)"
  have "?s2 = [] \<or> ?s2 = '' ''"
  proof (cases "stripped s = []")
    case True
    then show ?thesis
      unfolding replaceGlobal_def
      by (subst replaceLoop.simps) (simp add: re_non_vowels_def run_def backtrack.simps)
  next
    case False
    have "replaceLoop re_non_vowels '' '' None (stripped s) = '' ''"
      by (rule replaceLoop_class_all[OF stripped_no_vowel[OF assms] False, where cap=False])
        (simp add: re_non_vowels_def)
    then show ?thesis by (simp add: replaceGlobal_def)
  qed
  then have "trim ?s2 = []" by (auto simp: trim_def isWhiteSpace_def)
  then show ?thesis by (simp add: countSyllables_part0_def stripped_def splitStr_def)
qed

text \<open>
  Claim C8. The syllable count, in both files, is a number of matches or of pieces: a
  non-negative integer for every text. It is 0 for the empty text, and for every text
  whose lower-cased form, the text that both counts work on, has none of the letters
  a, e, i, o, u, y.
\<close>

theorem syllable_count_contract:
  "0 \<le> int (countSyllables s) \<and> 0 \<le> int (countSyllables_part0 s)
   \<and> countSyllables [] = 0 \<and> countSyllables_part0 [] = 0
   \<and> (set (toLowerCase s) \<inter> set ''aeiouy'' = {} \<longrightarrow>
        countSyllables s = 0 \<and> countSyllables_part0 s = 0)"
proof -
  have e: "list_all (\<lambda>x. x \<notin> set ''aeiouy'') (toLowerCase [])" by (simp add: toLowerCase_def)
  have "countSyllables [] = 0" using e by (rule countSyllables_no_vowel)
  moreover have "countSyllables_part0 [] = 0" using e by (rule countSyllables_part0_no_vowel)
  moreover have "countSyllables s = 0 \<and> countSyllables_part0 s = 0"
    if "set (toLowerCase s) \<inter> set ''aeiouy'' = {}"
  proof -
    from that have "list_all (\<lambda>x. x \<notin> set ''aeiouy'') (toLowerCase s)"
      unfolding list_all_iff by blast
    then show ?thesis
      by (simp only: countSyllables_no_vowel countSyllables_part0_no_vowel simp_thms)
  qed
  ultimately show ?thesis by simp
qed

theorem syllable_count_contract_witness:
  "toLowerCase ''Pst, hmm: 42 TV!'' = ''pst, hmm: 42 tv!''
   \<and> set (toLowerCase ''Pst, hmm: 42 TV!'') \<inter> set ''aeiouy'' = {}
   \<and> countSyllables ''Pst, hmm: 42 TV!'' = 0 \<and> countSyllables_part0 ''Pst, hmm: 42 TV!'' = 0"
proof -
  have l: "toLowerCase ''Pst, hmm: 42 TV!'' = ''pst, hmm: 42 tv!''" by code_simp
  have h: "set (toLowerCase ''Pst, hmm: 42 TV!'') \<inter> set ''aeiouy'' = {}"
    unfolding l by simp
  show ?thesis
    using l h syllable_count_contract[of "''Pst, hmm: 42 TV!''"] by blast
qed








section \<open>The classes of the sentences\<close>











section \<open>Determinism\<close>

text \<open>
  Claim C9. Both analyzers compute their results from the text alone. What \<open>analyzeSEO\<close>
  writes does not depend on the state of the component it starts from; a second call
  on the same text leaves the state of the first; and what it writes is the overall
  score and the advice of the eight checks of the text, with the four results of the
  readability analyzer of the text. The readability analyzers are functions of the
  text: they read no state.
\<close>

theorem analyzers_deterministic:
  "map_sum id outputs (analyzeSEO t st1) = map_sum id outputs (analyzeSEO t st2)
   \<and> analyzeTwice t st = analyzeSEO t st
   \<and> map_sum id outputs (analyzeSEO t st) =
       map_sum id (\<lambda>cs. (overallScore cs, newSuggestions cs,
          rscore (analyzeReadability_part0 t), hardSentences (analyzeReadability_part0 t),
          veryHardSentences (analyzeReadability_part0 t), grade (analyzeReadability_part0 t)))
        (seoChecks t)"
  by (auto simp: analyzeSEO_def analyzeTwice_def outputs_def Let_def split: sum.splits)

end
